theory Spec2Isabelle
  imports Main
begin

section \<open>Go values: errors and the dynamic values a panic can carry\<close>

text \<open>
  A Go \<^verbatim>\<open>error\<close> is any value with an \<^verbatim>\<open>Error() string\<close> method. Two kinds occur:
  the \<^verbatim>\<open>*errors.errorString\<close> that \<^verbatim>\<open>fmt.Errorf\<close> builds (it holds the message only)
  and errors of some other type, kept with their type name and message.
\<close>

datatype error = errorString string | customError string string

fun Error :: "error \<Rightarrow> string" where
  "Error (errorString s) = s"
| "Error (customError ty msg) = msg"

text \<open>
  The value \<^verbatim>\<open>recover()\<close> hands to the deferred function has the static type
  \<^verbatim>\<open>interface{}\<close>. The type switch of \<^verbatim>\<open>HandleMethod\<close> tells three dynamic types apart:
  a value that implements \<^verbatim>\<open>error\<close>, a value of type \<^verbatim>\<open>string\<close>, and everything else.
  A value of any other type is kept with its type name and with the text \<^verbatim>\<open>fmt.Sprint\<close>
  prints for it. \<open>Nil\<close> is the nil interface value.
\<close>

datatype any = Nil | AnError error | AString string | Other string string

fun Sprint :: "any \<Rightarrow> string" where
  "Sprint Nil = ''<nil>''"
| "Sprint (AnError e) = Error e"
| "Sprint (AString s) = s"
| "Sprint (Other ty txt) = txt"

section \<open>\<^verbatim>\<open>fmt.Errorf\<close> called with a format and no operands\<close>

text \<open>
  \<^verbatim>\<open>HandleMethod\<close> calls \<^verbatim>\<open>fmt.Errorf(t)\<close>: the recovered text is the \<^emph>\<open>format\<close>, and there
  are no operands. This is \<^verbatim>\<open>(*pp).doPrintf\<close> of the Go standard library specialised to
  an empty operand list: plain text is copied, and every directive is either \<^verbatim>\<open>%%\<close>
  or reported in the output (\<^verbatim>\<open>%!v(MISSING)\<close>, \<^verbatim>\<open>%!v(BADINDEX)\<close>, \<^verbatim>\<open>%!(NOVERB)\<close>,
  \<^verbatim>\<open>%!(BADWIDTH)\<close>, \<^verbatim>\<open>%!(BADPREC)\<close>). Strings are byte sequences, as in Go.
\<close>

definition byte :: "char \<Rightarrow> nat" where
  "byte c = of_char c"

definition is_flag :: "char \<Rightarrow> bool" where
  "is_flag c = (c = CHR ''#'' \<or> c = CHR ''0'' \<or> c = CHR ''+'' \<or> c = CHR ''-'' \<or> c = CHR '' '')"

definition is_digit :: "char \<Rightarrow> bool" where
  "is_digit c = (48 \<le> byte c \<and> byte c \<le> 57)"

text \<open>\<^verbatim>\<open>parsenum\<close>: the number read, whether one was read, and the text left. A number
  past \<^verbatim>\<open>1e6\<close> gives up and skips to the end of the range.\<close>

fun parsenum_loop :: "nat \<Rightarrow> bool \<Rightarrow> string \<Rightarrow> nat \<times> bool \<times> string" where
  "parsenum_loop num isnum [] = (num, isnum, [])"
| "parsenum_loop num isnum (c # cs) =
     (if is_digit c
      then (if num > 1000000 then (0, False, [])
            else parsenum_loop (num * 10 + (byte c - 48)) True cs)
      else (num, isnum, c # cs))"

definition parsenum :: "string \<Rightarrow> nat \<times> bool \<times> string" where
  "parsenum s = (if s = [] then (0, False, []) else parsenum_loop 0 False s)"

text \<open>\<^verbatim>\<open>parseArgNumber\<close> on a text that starts with \<^verbatim>\<open>[\<close>: how many bytes the index
  takes and whether it is well formed.\<close>

definition parseArgNumber :: "string \<Rightarrow> nat \<times> bool" where
  "parseArgNumber format =
     (if length format < 3 then (1, False)
      else if CHR '']'' \<in> set (tl format)
      then (let content = takeWhile (\<lambda>c. c \<noteq> CHR '']'') (tl format);
                i = length content + 1
            in (case parsenum content of
                  (width, ok, rest) \<Rightarrow>
                    if \<not> ok \<or> rest \<noteq> [] then (i + 1, False) else (i + 1, True)))
      else (1, False))"

text \<open>\<^verbatim>\<open>argNumber\<close> with no operands: an explicit index is never in range, so it always
  clears \<^verbatim>\<open>goodArgNum\<close>. The result is the text left, \<^verbatim>\<open>found\<close> and \<^verbatim>\<open>goodArgNum\<close>.\<close>

definition argNumber :: "string \<Rightarrow> bool \<Rightarrow> string \<times> bool \<times> bool" where
  "argNumber format good =
     (case format of
        [] \<Rightarrow> (format, False, good)
      | c # cs \<Rightarrow>
          if c \<noteq> CHR ''['' then (format, False, good)
          else (case parseArgNumber format of
                  (wid, ok) \<Rightarrow> (drop wid format, ok, False)))"

text \<open>\<^verbatim>\<open>utf8.DecodeRuneInString\<close>, as far as the verb needs it: the number of bytes of the
  well-formed encoding at the head of the text, or 0 when there is none (the rune is then
  \<^verbatim>\<open>utf8.RuneError\<close> of width 1).\<close>

definition cont :: "nat \<Rightarrow> nat \<Rightarrow> string \<Rightarrow> nat \<Rightarrow> bool" where
  "cont lo hi s k = (k < length s \<and> lo \<le> byte (s ! k) \<and> byte (s ! k) \<le> hi)"

definition rune_size :: "string \<Rightarrow> nat" where
  "rune_size s =
     (case s of
        [] \<Rightarrow> 0
      | c # cs \<Rightarrow>
          (let b = byte c in
           if b < 128 then 1
           else if 194 \<le> b \<and> b \<le> 223 then (if cont 128 191 s 1 then 2 else 0)
           else if b = 224 then (if cont 160 191 s 1 \<and> cont 128 191 s 2 then 3 else 0)
           else if b = 237 then (if cont 128 159 s 1 \<and> cont 128 191 s 2 then 3 else 0)
           else if 225 \<le> b \<and> b \<le> 239 then (if cont 128 191 s 1 \<and> cont 128 191 s 2 then 3 else 0)
           else if b = 240
             then (if cont 144 191 s 1 \<and> cont 128 191 s 2 \<and> cont 128 191 s 3 then 4 else 0)
           else if 241 \<le> b \<and> b \<le> 243
             then (if cont 128 191 s 1 \<and> cont 128 191 s 2 \<and> cont 128 191 s 3 then 4 else 0)
           else if b = 244
             then (if cont 128 143 s 1 \<and> cont 128 191 s 2 \<and> cont 128 191 s 3 then 4 else 0)
           else 0))"

text \<open>The bytes \<^verbatim>\<open>writeRune\<close> emits for the verb at the head of the text, and the text
  after the verb. \<^verbatim>\<open>utf8.RuneError\<close> is written as \<^verbatim>\<open>EF BF BD\<close>.\<close>

definition RuneError :: string where
  "RuneError = [char_of (239::nat), char_of (191::nat), char_of (189::nat)]"

definition decode_verb :: "string \<Rightarrow> string \<times> string" where
  "decode_verb s =
     (if rune_size s = 0 then (RuneError, drop 1 s)
      else (take (rune_size s) s, drop (rune_size s) s))"

text \<open>One directive: the text after a \<^verbatim>\<open>%\<close> is read as flags, argument index, width,
  precision, argument index and verb. The result is what is written and the text left.\<close>

definition width_step :: "string \<Rightarrow> bool \<Rightarrow> bool \<Rightarrow> string \<times> string \<times> bool \<times> bool" where
  "width_step format afterIndex good =
     (case format of
        [] \<Rightarrow> ([], format, afterIndex, good)
      | c # cs \<Rightarrow>
          if c = CHR ''*'' then (''%!(BADWIDTH)'', cs, False, good)
          else (case parsenum format of
                  (wid, widPresent, rest) \<Rightarrow>
                    ([], rest, afterIndex, if afterIndex \<and> widPresent then False else good)))"

definition prec_step :: "string \<Rightarrow> bool \<Rightarrow> bool \<Rightarrow> string \<times> string \<times> bool \<times> bool" where
  "prec_step format afterIndex good =
     (case format of
        [] \<Rightarrow> ([], format, afterIndex, good)
      | c # cs \<Rightarrow>
          if c \<noteq> CHR ''.'' then ([], format, afterIndex, good)
          else (case argNumber cs (if afterIndex then False else good) of
                  (r, afterIndex', good') \<Rightarrow>
                    (case r of
                       [] \<Rightarrow> ([], r, afterIndex', good')
                     | d # ds \<Rightarrow>
                         if d = CHR ''*'' then (''%!(BADPREC)'', ds, False, good')
                         else (case parsenum r of
                                 (prec, precPresent, rest) \<Rightarrow> ([], rest, afterIndex', good')))))"

definition directive :: "string \<Rightarrow> string \<times> string" where
  "directive format =
     (case argNumber (dropWhile is_flag format) True of
        (r1, afterIndex1, good1) \<Rightarrow>
     (case width_step r1 afterIndex1 good1 of
        (out2, r2, afterIndex2, good2) \<Rightarrow>
     (case prec_step r2 afterIndex2 good2 of
        (out3, r3, afterIndex3, good3) \<Rightarrow>
     (case (if \<not> afterIndex3 then argNumber r3 good3 else (r3, afterIndex3, good3)) of
        (r4, afterIndex4, good4) \<Rightarrow>
          if r4 = [] then (out2 @ out3 @ ''%!(NOVERB)'', [])
          else (case decode_verb r4 of
                  (verb, rest) \<Rightarrow>
                    if verb = ''%'' then (out2 @ out3 @ ''%'', rest)
                    else if \<not> good4 then (out2 @ out3 @ ''%!'' @ verb @ ''(BADINDEX)'', rest)
                    else (out2 @ out3 @ ''%!'' @ verb @ ''(MISSING)'', rest))))))"

text \<open>A directive never leaves more text than it was given: the loop below terminates.\<close>

lemma parsenum_loop_length: "length (snd (snd (parsenum_loop n b s))) \<le> length s"
  by (induction n b s rule: parsenum_loop.induct) auto

lemma parsenum_length: "length (snd (snd (parsenum s))) \<le> length s"
  using parsenum_loop_length [of 0 False s] by (simp add: parsenum_def)

lemma argNumber_length: "length (fst (argNumber s g)) \<le> length s"
  by (auto simp: argNumber_def split: list.splits prod.splits)

lemma width_step_length: "length (fst (snd (width_step s a g))) \<le> length s"
  using parsenum_length [of s]
  by (auto simp: width_step_def split: list.splits prod.splits)

lemma prec_step_length: "length (fst (snd (prec_step s a g))) \<le> length s"
proof (cases s)
  case Nil
  then show ?thesis by (simp add: prec_step_def)
next
  case (Cons c cs)
  show ?thesis
  proof (cases "c = CHR ''.''")
    case False
    with Cons show ?thesis by (simp add: prec_step_def)
  next
    case True
    obtain r a' g' where an: "argNumber cs (if a then False else g) = (r, a', g')"
      by (cases "argNumber cs (if a then False else g)") auto
    have lr: "length r \<le> length cs"
      using argNumber_length [of cs "if a then False else g"] an by simp
    have "length (fst (snd (prec_step s a g))) \<le> length r"
      using parsenum_length [of r] Cons True an
      by (auto simp: prec_step_def split: list.splits prod.splits)
    with lr Cons show ?thesis by simp
  qed
qed

lemma decode_verb_length: "length (snd (decode_verb s)) \<le> length s"
  by (simp add: decode_verb_def)

lemma directive_length: "length (snd (directive s)) \<le> length s"
proof -
  obtain r1 a1 g1 where s1: "argNumber (dropWhile is_flag s) True = (r1, a1, g1)"
    by (cases "argNumber (dropWhile is_flag s) True") auto
  obtain o2 r2 a2 g2 where s2: "width_step r1 a1 g1 = (o2, r2, a2, g2)"
    by (cases "width_step r1 a1 g1") auto
  obtain o3 r3 a3 g3 where s3: "prec_step r2 a2 g2 = (o3, r3, a3, g3)"
    by (cases "prec_step r2 a2 g2") auto
  obtain r4 a4 g4 where s4: "(if \<not> a3 then argNumber r3 g3 else (r3, a3, g3)) = (r4, a4, g4)"
    by (cases "(if \<not> a3 then argNumber r3 g3 else (r3, a3, g3))") auto
  have l0: "length (dropWhile is_flag s) \<le> length s" by (rule length_dropWhile_le)
  have l1: "length r1 \<le> length (dropWhile is_flag s)"
    using argNumber_length [of "dropWhile is_flag s" True] s1 by simp
  have l2: "length r2 \<le> length r1" using width_step_length [of r1 a1 g1] s2 by simp
  have l3: "length r3 \<le> length r2" using prec_step_length [of r2 a2 g2] s3 by simp
  have l4: "length r4 \<le> length r3"
    using argNumber_length [of r3 g3] s4 by (auto split: if_splits)
  have l5: "length (snd (decode_verb r4)) \<le> length r4" by (rule decode_verb_length)
  have "length (snd (directive s)) \<le> length r4"
    using l5 by (cases "decode_verb r4") (simp add: directive_def s1 s2 s3 s4)
  with l0 l1 l2 l3 l4 show ?thesis by linarith
qed

text \<open>The format loop of \<^verbatim>\<open>doPrintf\<close>: copy the text up to the next \<^verbatim>\<open>%\<close>, process one
  directive, go on with what is left.\<close>

function doPrintf :: "string \<Rightarrow> string" where
  "doPrintf format =
     (case dropWhile (\<lambda>c. c \<noteq> CHR ''%'') format of
        [] \<Rightarrow> format
      | c # cs \<Rightarrow>
          takeWhile (\<lambda>c. c \<noteq> CHR ''%'') format @ fst (directive cs) @ doPrintf (snd (directive cs)))"
  by pat_completeness auto
termination
proof (relation "measure length")
  show "wf (measure length)" by simp
next
  fix format :: string and c cs
  assume "dropWhile (\<lambda>c. c \<noteq> CHR ''%'') format = c # cs"
  then have "length cs < length format"
    using length_dropWhile_le [of "\<lambda>c. c \<noteq> CHR ''%''" format] by simp
  with directive_length [of cs] show "(snd (directive cs), format) \<in> measure length" by simp
qed

declare doPrintf.simps [simp del]

text \<open>\<^verbatim>\<open>fmt.Errorf(format)\<close> with no operands: no \<^verbatim>\<open>%w\<close> operand is wrapped, so the result
  is \<^verbatim>\<open>errors.New\<close> of the formatted text.\<close>

definition Errorf :: "string \<Rightarrow> error" where
  "Errorf format = errorString (doPrintf format)"

section \<open>\<^verbatim>\<open>path.Join\<close> and \<^verbatim>\<open>path.Clean\<close>\<close>

text \<open>
  \<^verbatim>\<open>Resource\<close> builds the path of the member routes with \<^verbatim>\<open>pathlib.Join(path, "/{id}")\<close>,
  which joins with a slash and returns the \<^verbatim>\<open>Clean\<close>ed result. \<^verbatim>\<open>Clean\<close> reads the path
  left to right and writes into a buffer; \<open>dotdot\<close> is the length of the prefix of the
  buffer that a \<^verbatim>\<open>..\<close> element must not remove.
\<close>

fun backtrack :: "string \<Rightarrow> nat \<Rightarrow> nat \<Rightarrow> nat" where
  "backtrack out dotdot w =
     (if w > dotdot \<and> out ! w \<noteq> CHR ''/'' then backtrack out dotdot (w - 1) else w)"

text \<open>One round of the loop of \<^verbatim>\<open>Clean\<close> at the byte \<open>c\<close>, with \<open>cs\<close> after it: the path left to
  read, the buffer and \<open>dotdot\<close>. The four cases are those of the \<^verbatim>\<open>switch\<close>: an empty
  element, a \<^verbatim>\<open>.\<close> element, a \<^verbatim>\<open>..\<close> element, a real element.\<close>

definition clean_step :: "bool \<Rightarrow> char \<Rightarrow> string \<Rightarrow> string \<Rightarrow> nat \<Rightarrow> string \<times> string \<times> nat" where
  "clean_step rooted c cs out dotdot =
     (if c = CHR ''/'' then (cs, out, dotdot)
      else if c = CHR ''.'' \<and> (cs = [] \<or> hd cs = CHR ''/'') then (cs, out, dotdot)
      else if c = CHR ''.'' \<and> hd cs = CHR ''.'' \<and> (tl cs = [] \<or> hd (tl cs) = CHR ''/'')
      then (if length out > dotdot
            then (tl cs, take (backtrack out dotdot (length out - 1)) out, dotdot)
            else if \<not> rooted
            then (tl cs, (if length out > 0 then out @ ''/'' else out) @ ''..'',
                  length ((if length out > 0 then out @ ''/'' else out) @ ''..''))
            else (tl cs, out, dotdot))
      else (dropWhile (\<lambda>x. x \<noteq> CHR ''/'') cs,
            (if (rooted \<and> length out \<noteq> 1) \<or> (\<not> rooted \<and> length out \<noteq> 0) then out @ ''/'' else out)
              @ c # takeWhile (\<lambda>x. x \<noteq> CHR ''/'') cs,
            dotdot))"

lemma clean_branches_length:
  "length (fst (if b1 then (cs, x1, y1)
                else if b2 then (cs, x2, y2)
                else if b3 then (if b4 then (tl cs, x3, y3) else if b5 then (tl cs, x4, y4) else (tl cs, x5, y5))
                else (dropWhile P cs, x6, y6))) \<le> length (cs :: string)"
  by (simp add: length_dropWhile_le)

lemma clean_step_length: "length (fst (clean_step rooted c cs out dotdot)) \<le> length cs"
  unfolding clean_step_def by (rule clean_branches_length)

function clean_loop :: "bool \<Rightarrow> string \<Rightarrow> string \<Rightarrow> nat \<Rightarrow> string" where
  "clean_loop rooted p out dotdot =
     (case p of
        [] \<Rightarrow> out
      | c # cs \<Rightarrow>
          clean_loop rooted (fst (clean_step rooted c cs out dotdot))
            (fst (snd (clean_step rooted c cs out dotdot)))
            (snd (snd (clean_step rooted c cs out dotdot))))"
  by pat_completeness auto
termination
proof (relation "measure (\<lambda>(rooted, p, out, dotdot). length p)")
  show "wf (measure (\<lambda>(rooted, p, out, dotdot). length p))" by simp
next
  fix rooted :: bool and p :: string and out :: string and dotdot :: nat and c cs
  assume "p = c # cs"
  with clean_step_length [of rooted c cs out dotdot]
  show "((rooted, fst (clean_step rooted c cs out dotdot),
          fst (snd (clean_step rooted c cs out dotdot)),
          snd (snd (clean_step rooted c cs out dotdot))),
         (rooted, p, out, dotdot)) \<in> measure (\<lambda>(rooted, p, out, dotdot). length p)"
    by (cases "clean_step rooted c cs out dotdot") simp
qed

declare clean_loop.simps [simp del]

definition Clean :: "string \<Rightarrow> string" where
  "Clean p =
     (if p = [] then ''.''
      else (let out = (if hd p = CHR ''/'' then clean_loop True (tl p) ''/'' 1
                       else clean_loop False p [] 0)
            in if out = [] then ''.'' else out))"

text \<open>\<^verbatim>\<open>Join\<close>: leading empty elements are dropped, the rest is joined with slashes and
  cleaned; no non-empty element gives the empty string.\<close>

definition Join :: "string list \<Rightarrow> string" where
  "Join elem =
     (case dropWhile (\<lambda>e. e = []) elem of
        [] \<Rightarrow> []
      | e # es \<Rightarrow> Clean (e @ concat (map (\<lambda>x. CHR ''/'' # x) es)))"

text \<open>A path element that \<^verbatim>\<open>Clean\<close> copies as it is: not empty, without a slash, and neither
  \<^verbatim>\<open>.\<close> nor \<^verbatim>\<open>..\<close>; and the buffer of \<^verbatim>\<open>Clean\<close> after such an element has been copied.\<close>

definition plain_segment :: "string \<Rightarrow> bool" where
  "plain_segment s = (s \<noteq> [] \<and> CHR ''/'' \<notin> set s \<and> s \<noteq> ''.'' \<and> s \<noteq> ''..'')"

definition add_segment :: "string \<Rightarrow> string \<Rightarrow> string" where
  "add_segment out s = (if length out \<noteq> 1 then out @ ''/'' else out) @ s"

section \<open>The HTTP boundary\<close>

text \<open>
  A request, and the identity of the \<^verbatim>\<open>http.ResponseWriter\<close> of one exchange. What a
  handler chain does to the outside is recorded in order: the calls on the response writer
  and any other side effect, by label.
\<close>

record Request =
  reqMethod :: string
  reqPath :: string
  reqCookies :: "(string \<times> string) list"

type_synonym ResponseWriter = nat

datatype event =
    CallWriteHeader nat
  | CallWrite string
  | DevelopmentErrorPage Request error
  | Effect string

type_synonym world = "event list"

definition WriteHeader :: "nat \<Rightarrow> world \<Rightarrow> world" where
  "WriteHeader code w = w @ [CallWriteHeader code]"

text \<open>Modelled from the spec: \<^verbatim>\<open>renderer.RenderDevelopmentError\<close> is not in this file; it
  "renders a verbose diagnostic page describing the error and request context".\<close>

definition RenderDevelopmentError :: "Request \<Rightarrow> error \<Rightarrow> world \<Rightarrow> world" where
  "RenderDevelopmentError req err w = w @ [DevelopmentErrorPage req err]"

text \<open>The status line the client receives, as \<^verbatim>\<open>net/http\<close> decides it: the first
  \<^verbatim>\<open>WriteHeader\<close> counts, and a body written before any header implies 200.\<close>

fun status :: "world \<Rightarrow> nat option" where
  "status [] = None"
| "status (CallWriteHeader code # w) = Some code"
| "status (CallWrite body # w) = Some 200"
| "status (DevelopmentErrorPage req err # w) = Some 200"
| "status (Effect l # w) = status w"

section \<open>The data of the application\<close>

datatype level = InfoLevel | WarnLevel | ErrorLevel | FatalLevel

text \<open>The logger, as the lines it has written.\<close>

type_synonym Logger = "(level \<times> string) list"

definition Warn :: "Logger \<Rightarrow> string \<Rightarrow> Logger" where
  "Warn l msg = l @ [(WarnLevel, msg)]"

text \<open>A start-up that does not return: the process exits (with the lines logged by then),
  or a panic unwinds.\<close>

datatype abort = Exit nat Logger | Panic any

text \<open>Modelled from the spec: the logger's type is not in this file; a missing production
  secret is "fatal", so \<^verbatim>\<open>Fatalf\<close> writes the line and ends the process with status 1.\<close>

definition Fatalf :: "Logger \<Rightarrow> string \<Rightarrow> abort" where
  "Fatalf l msg = Exit 1 (l @ [(FatalLevel, msg)])"

record GorillaSession =
  sessionName' :: string
  sessionValues :: "(string \<times> string) list"
  IsNew :: bool

text \<open>A session store: its keys, and what \<^verbatim>\<open>Get(req, name)\<close> returns, a session (or nil)
  and an error (or nil). \<^verbatim>\<open>sessions.NewCookieStore\<close> keeps the key; how the cookie decodes
  under a key is the business of \<^verbatim>\<open>securecookie\<close>, the parameter \<open>codec\<close>.\<close>

record Store =
  keyPairs :: "string list"
  store_Get :: "Request \<Rightarrow> string \<Rightarrow> GorillaSession option \<times> error option"

definition NewCookieStore ::
  "(string \<Rightarrow> Request \<Rightarrow> string \<Rightarrow> GorillaSession option \<times> error option) \<Rightarrow> string \<Rightarrow> Store" where
  "NewCookieStore codec secret = \<lparr>keyPairs = [secret], store_Get = codec secret\<rparr>"

record Session =
  gSession :: "GorillaSession option"
  session_req :: Request
  session_res :: ResponseWriter

record Cookies =
  cookies_res :: ResponseWriter
  cookies_req :: Request

text \<open>A template engine: its configuration, what its \<^verbatim>\<open>Init()\<close> returns (that depends on
  the templates on disk) and how often \<^verbatim>\<open>Init()\<close> has been called.\<close>

record Engine =
  templateDir :: string
  ext :: string
  autoReload :: bool
  initError :: "error option"
  initCalls :: nat

definition Engine_Init :: "Engine \<Rightarrow> error option \<times> Engine" where
  "Engine_Init e = (initError e, e\<lparr>initCalls := initCalls e + 1\<rparr>)"

definition NewPongo2Engine :: "error option \<Rightarrow> string \<Rightarrow> string \<Rightarrow> bool \<Rightarrow> Engine" where
  "NewPongo2Engine disk dir e reload =
     \<lparr>templateDir = dir, ext = e, autoReload = reload, initError = disk, initCalls = 0\<rparr>"

type_synonym Broker = string

text \<open>The context of one request, with the fields \<^verbatim>\<open>HandleMethod\<close> sets (the type is
  declared outside this file). A field is \<open>None\<close> while it is nil.\<close>

record Context =
  ctx_logger :: "Logger option"
  ctx_broker :: "Broker option"
  ctx_res :: "ResponseWriter option"
  ctx_req :: "Request option"
  ctx_cookies :: "Cookies option"
  ctx_session :: "Session option"
  ctx_tmplEngine :: "Engine option"

text \<open>Modelled from the spec: \<^verbatim>\<open>NewDefaultContext\<close> is not in this file; it gives "a fresh
  Context", to which \<^verbatim>\<open>HandleMethod\<close> attaches every field.\<close>

definition NewDefaultContext :: Context where
  "NewDefaultContext =
     \<lparr>ctx_logger = None, ctx_broker = None, ctx_res = None, ctx_req = None,
      ctx_cookies = None, ctx_session = None, ctx_tmplEngine = None\<rparr>"

text \<open>
  \<^verbatim>\<open>type RouteHandler func(ctx Context) error\<close>: called with a context, a handler has its
  effects and then returns an error (or nil), or panics with a value. A func value also
  has an identity, its name, by which a skip rule can refer to it.
  \<^verbatim>\<open>type MiddlewareFunc func(RouteHandler) RouteHandler\<close>.
\<close>

datatype outcome = Returns "error option" | Panics any

record RouteHandler =
  fname :: string
  call :: "Context \<Rightarrow> world \<Rightarrow> outcome \<times> world"

record MiddlewareFunc =
  mname :: string
  wrap :: "RouteHandler \<Rightarrow> RouteHandler"

text \<open>The stack, in registration order, and the skip rules: the pair \<open>(m, h)\<close> says that
  the middleware named \<open>m\<close> is skipped for the handler named \<open>h\<close>.\<close>

record MiddlewareStack =
  stack :: "MiddlewareFunc list"
  skips :: "(string \<times> string) list"

text \<open>Modelled from the spec: \<^verbatim>\<open>MiddlewareStack.Use\<close> is not in this file; it "appends one
  or more middleware functions to the process-wide ordered list".\<close>

definition MiddlewareStack_Use :: "MiddlewareFunc list \<Rightarrow> MiddlewareStack \<Rightarrow> MiddlewareStack" where
  "MiddlewareStack_Use mw ms = ms\<lparr>stack := stack ms @ mw\<rparr>"

text \<open>Modelled from the spec: \<^verbatim>\<open>MiddlewareStack.handle\<close> is not in this file. "Starting
  from the terminal handler, each middleware wraps the handler produced by the previous
  composition step, applied in reverse registration order"; "a middleware with a skip rule
  matching the target route is omitted from that particular route's composed chain".\<close>

definition handle :: "MiddlewareStack \<Rightarrow> RouteHandler \<Rightarrow> RouteHandler" where
  "handle ms terminal =
     foldl (\<lambda>h mw. if (mname mw, fname terminal) \<in> set (skips ms) then h else wrap mw h)
       terminal (rev (stack ms))"

text \<open>The options; the type is declared outside this file, and these are the fields this
  file reads or writes.\<close>

record Options =
  env :: string
  logger :: Logger
  broker :: "Broker option"
  sessionStore :: "Store option"
  sessionName :: string
  tmplEngine :: "Engine option"
  webpackEnabled :: bool

text \<open>The routes of the \<^verbatim>\<open>mux.Router\<close>, in registration order: the static file server
  under a path prefix, and \<^verbatim>\<open>HandleFunc(path, f).Methods(methods...)\<close>, where \<open>f\<close> is the
  function \<^verbatim>\<open>HandleMethod\<close> generates for a route handler.\<close>

datatype muxRoute =
    PathPrefixRoute string string
  | HandleFuncRoute string "string list" RouteHandler

text \<open>Modelled from the spec: the \<^verbatim>\<open>Router\<close> type is not in this file; a sub-router holds
  routes that are "materialized into concrete routes only at Init time".\<close>

record Router =
  routerRoutes :: "(string list \<times> string \<times> RouteHandler) list"

text \<open>The fields \<^verbatim>\<open>Handler\<close> and \<^verbatim>\<open>n\<close> of \<^verbatim>\<open>App\<close> are never read or written in this file
  and are left out.\<close>

record App =
  opts :: Options
  muxRouter :: "muxRoute list"
  app_tmplEngine :: Engine
  middleware :: MiddlewareStack
  routers :: "Router list"

section \<open>Construction\<close>

definition Getenv :: "(string \<rightharpoonup> string) \<Rightarrow> string \<Rightarrow> string" where
  "Getenv environ k = (case environ k of None \<Rightarrow> [] | Some v \<Rightarrow> v)"

definition setupSession ::
  "(string \<Rightarrow> Request \<Rightarrow> string \<Rightarrow> GorillaSession option \<times> error option)
   \<Rightarrow> (string \<rightharpoonup> string) \<Rightarrow> App \<Rightarrow> abort + App" where
  "setupSession codec environ app =
     (if sessionStore (opts app) = None
      then (let secret = Getenv environ ''SESSION_SECRET'' in
            if secret = []
            then (if env (opts app) = ''production''
                  then Inl (Fatalf (logger (opts app))
                              ''Missing a required environment variable: SESSION_SECRET'')
                  else if env (opts app) = ''development''
                  then Inr (app\<lparr>opts := (opts app)
                              \<lparr>logger := Warn (logger (opts app))
                                 ''You will need to setup a SESSION_SECRET in production mode.'',
                               sessionStore := Some (NewCookieStore codec ''development-secret'')\<rparr>\<rparr>)
                  else Inr (app\<lparr>opts := (opts app)
                              \<lparr>sessionStore := Some (NewCookieStore codec secret)\<rparr>\<rparr>))
            else Inr (app\<lparr>opts := (opts app)
                        \<lparr>sessionStore := Some (NewCookieStore codec secret)\<rparr>\<rparr>))
      else Inr app)"

text \<open>\<^verbatim>\<open>NewApp\<close>; \<open>options\<close> is what \<^verbatim>\<open>newOptions(opts...)\<close> returned and \<open>disk\<close> what
  the default engine will find on disk.\<close>

definition NewApp ::
  "(string \<Rightarrow> Request \<Rightarrow> string \<Rightarrow> GorillaSession option \<times> error option)
   \<Rightarrow> error option \<Rightarrow> (string \<rightharpoonup> string) \<Rightarrow> Options \<Rightarrow> abort + App" where
  "NewApp codec disk environ options =
     (let options1 =
            (if tmplEngine options = None
             then options\<lparr>tmplEngine :=
                    Some (NewPongo2Engine disk ''templates'' ''.html'' (env options = ''development''))\<rparr>
             else options);
          staticDir = ''/public/'';
          app = \<lparr>opts = options1,
                 muxRouter = [PathPrefixRoute staticDir (''.'' @ staticDir)],
                 app_tmplEngine =
                   (case tmplEngine options1 of
                      Some e \<Rightarrow> e
                    | None \<Rightarrow> NewPongo2Engine disk ''templates'' ''.html'' (env options = ''development'')),
                 middleware = \<lparr>stack = [], skips = []\<rparr>,
                 routers = []\<rparr>
      in setupSession codec environ app)"

section \<open>Routes\<close>

text \<open>\<^verbatim>\<open>HandleMethod\<close> registers, for the path and the methods, the function it generates
  around \<open>routeHandler\<close>. That function is \<open>dispatch\<close> below; it reads the application
  through the pointer \<^verbatim>\<open>app\<close> when a request comes in, so the route keeps the handler only.\<close>

definition HandleMethod :: "string list \<Rightarrow> string \<Rightarrow> RouteHandler \<Rightarrow> App \<Rightarrow> App" where
  "HandleMethod methods path routeHandler app =
     app\<lparr>muxRouter := muxRouter app @ [HandleFuncRoute path methods routeHandler]\<rparr>"

definition Get :: "string \<Rightarrow> RouteHandler \<Rightarrow> App \<Rightarrow> App" where
  "Get path routeHandler app = HandleMethod [''GET''] path routeHandler app"

definition Post :: "string \<Rightarrow> RouteHandler \<Rightarrow> App \<Rightarrow> App" where
  "Post path routeHandler app = HandleMethod [''POST''] path routeHandler app"

definition Put :: "string \<Rightarrow> RouteHandler \<Rightarrow> App \<Rightarrow> App" where
  "Put path routeHandler app = HandleMethod [''PUT''] path routeHandler app"

definition Delete :: "string \<Rightarrow> RouteHandler \<Rightarrow> App \<Rightarrow> App" where
  "Delete path routeHandler app = HandleMethod [''DELETE''] path routeHandler app"

definition Patch :: "string \<Rightarrow> RouteHandler \<Rightarrow> App \<Rightarrow> App" where
  "Patch path routeHandler app = HandleMethod [''PATCH''] path routeHandler app"

definition Any :: "string \<Rightarrow> RouteHandler \<Rightarrow> App \<Rightarrow> App" where
  "Any path routeHandler app =
     HandleMethod [''GET'', ''POST'', ''PUT'', ''DELETE'', ''PATCH''] path routeHandler app"

definition Use :: "MiddlewareFunc list \<Rightarrow> App \<Rightarrow> App" where
  "Use mw app = app\<lparr>middleware := MiddlewareStack_Use mw (middleware app)\<rparr>"

record Resource =
  List :: RouteHandler
  Show :: RouteHandler
  Create :: RouteHandler
  Update :: RouteHandler
  Destroy :: RouteHandler

definition Resource :: "string \<Rightarrow> Resource \<Rightarrow> App \<Rightarrow> App" where
  "Resource path resource app =
     (let id_path = Join [path, ''/{id}''];
          app1 = Get path (List resource) app;
          app2 = Get id_path (Show resource) app1;
          app3 = Post path (Create resource) app2;
          app4 = Put id_path (Update resource) app3;
          app5 = Delete id_path (Destroy resource) app4
      in app5)"

section \<open>Start-up\<close>

text \<open>Modelled from the spec: \<^verbatim>\<open>initRouterHandlers\<close> is not in this file; for a sub-router
  it "materializes its routes against the path router".\<close>

definition initRouterHandlers :: "App \<Rightarrow> Router \<Rightarrow> App" where
  "initRouterHandlers app router =
     foldl (\<lambda>a (methods, path, routeHandler). HandleMethod methods path routeHandler a)
       app (routerRoutes router)"

text \<open>\<^verbatim>\<open>Init\<close> and \<^verbatim>\<open>Start\<close> work on the application in place. The result is the
  application as they leave it and the panic, if any, they end with.\<close>

definition Init :: "App \<Rightarrow> abort option \<times> App" where
  "Init app =
     (let app1 = foldl initRouterHandlers app (routers app) in
      case Engine_Init (app_tmplEngine app1) of
        (err, engine) \<Rightarrow>
          (case err of
             Some e \<Rightarrow> (Some (Panic (AnError e)), app1\<lparr>app_tmplEngine := engine\<rparr>)
           | None \<Rightarrow> (None, app1\<lparr>app_tmplEngine := engine\<rparr>)))"

text \<open>What \<^verbatim>\<open>Start\<close> sets going outside the application: \<^verbatim>\<open>webpack.Init(dev)\<close>, and the
  goroutine that runs \<^verbatim>\<open>startWebpack\<close>.\<close>

datatype launch = WebpackInit bool | GoStartWebpack

definition Start :: "App \<Rightarrow> abort option \<times> App \<times> launch list" where
  "Start app =
     (case Init app of
        (Some a, app1) \<Rightarrow> (Some a, app1, [])
      | (None, app1) \<Rightarrow>
          (let dev = (env (opts app1) = ''development'') in
           if webpackEnabled (opts app1)
           then (None, app1, WebpackInit dev # (if dev then [GoStartWebpack] else []))
           else (None, app1, [])))"

text \<open>Not in this file: a caller of \<^verbatim>\<open>Start\<close> that has deferred a \<^verbatim>\<open>recover()\<close>, as Go lets
  any caller do. A panic stops there and the caller goes on with the application as it was
  left; an exit of the process cannot be stopped.\<close>

definition recovering_caller :: "App \<Rightarrow> abort option \<times> App" where
  "recovering_caller app =
     (case Start app of
        (Some (Panic v), app1, launched) \<Rightarrow> (None, app1)
      | (Some (Exit n l), app1, launched) \<Rightarrow> (Some (Exit n l), app1)
      | (None, app1, launched) \<Rightarrow> (None, app1))"

section \<open>Serving a request\<close>

text \<open>The panic of a method call on a nil interface value.\<close>

definition nilDereference :: any where
  "nilDereference =
     AnError (customError ''runtime.Error''
       ''runtime error: invalid memory address or nil pointer dereference'')"

definition getSession :: "App \<Rightarrow> ResponseWriter \<Rightarrow> Request \<Rightarrow> any + Session" where
  "getSession app res req =
     (case sessionStore (opts app) of
        None \<Rightarrow> Inl nilDereference
      | Some store \<Rightarrow>
          (case store_Get store req (sessionName (opts app)) of
             (session, err) \<Rightarrow> Inr \<lparr>gSession = session, session_req = req, session_res = res\<rparr>))"

definition HandleError :: "App \<Rightarrow> ResponseWriter \<Rightarrow> Request \<Rightarrow> error \<Rightarrow> world \<Rightarrow> world" where
  "HandleError app res req err w =
     (if env (opts app) = ''development''
      then RenderDevelopmentError req err (WriteHeader 500 w)
      else WriteHeader 500 w)"

text \<open>The type switch of the deferred function, on a recovered value that is not nil.\<close>

fun recovered_error :: "any \<Rightarrow> error" where
  "recovered_error (AnError t) = t"
| "recovered_error (AString t) = Errorf t"
| "recovered_error t = Errorf (Sprint t)"

text \<open>The deferred function; \<open>r\<close> is what \<^verbatim>\<open>recover()\<close> returns, nil when the chain did not
  panic.\<close>

definition deferred :: "App \<Rightarrow> ResponseWriter \<Rightarrow> Request \<Rightarrow> any \<Rightarrow> world \<Rightarrow> world" where
  "deferred app res req r w =
     (if r \<noteq> Nil then HandleError app res req (recovered_error r) w else w)"

text \<open>The context the generated function builds, up to the session. \<^verbatim>\<open>getSession\<close> runs
  before the panic guard is installed.\<close>

definition requestContext :: "App \<Rightarrow> ResponseWriter \<Rightarrow> Request \<Rightarrow> any + Context" where
  "requestContext app res req =
     (case getSession app res req of
        Inl p \<Rightarrow> Inl p
      | Inr session \<Rightarrow>
          Inr (NewDefaultContext
                 \<lparr>ctx_logger := Some (logger (opts app)),
                  ctx_broker := broker (opts app),
                  ctx_res := Some res,
                  ctx_req := Some req,
                  ctx_cookies := Some \<lparr>cookies_res = res, cookies_req = req\<rparr>,
                  ctx_session := Some session,
                  ctx_tmplEngine := Some (app_tmplEngine app)\<rparr>))"

text \<open>The function \<^verbatim>\<open>HandleMethod\<close> generates for \<open>routeHandler\<close>, run on a request with the
  application as it is at that moment. The result is the panic that leaves the function,
  if any, and what has happened by then.\<close>

definition dispatch ::
  "App \<Rightarrow> RouteHandler \<Rightarrow> ResponseWriter \<Rightarrow> Request \<Rightarrow> world \<Rightarrow> any option \<times> world" where
  "dispatch app routeHandler res req w =
     (case requestContext app res req of
        Inl p \<Rightarrow> (Some p, w)
      | Inr ctx \<Rightarrow>
          (let h = handle (middleware app) routeHandler in
           case call h ctx w of
             (Panics r, w1) \<Rightarrow> (None, deferred app res req r w1)
           | (Returns err, w1) \<Rightarrow>
               (None, deferred app res req Nil
                        (case err of
                           Some e \<Rightarrow> HandleError app res req e w1
                         | None \<Rightarrow> w1))))"

section \<open>Sample inputs\<close>

text \<open>Concrete values on which the theorems below are instantiated: a toy cookie codec (a
  cookie value is valid when it starts with the key), options, an application whose session
  store is set, handlers that leave a mark and then return nil, return an error or panic,
  and a middleware that leaves a mark before and after the handler it wraps.\<close>

definition sample_codec :: "string \<Rightarrow> Request \<Rightarrow> string \<Rightarrow> GorillaSession option \<times> error option" where
  "sample_codec key req name =
     (case map_of (reqCookies req) name of
        None \<Rightarrow> (Some \<lparr>sessionName' = name, sessionValues = [], IsNew = True\<rparr>, None)
      | Some v \<Rightarrow>
          if take (length key) v = key
          then (Some \<lparr>sessionName' = name, sessionValues = [(''raw'', drop (length key) v)], IsNew = False\<rparr>, None)
          else (Some \<lparr>sessionName' = name, sessionValues = [], IsNew = True\<rparr>,
                Some (errorString ''securecookie: the value is not valid'')))"

definition sample_options :: "string \<Rightarrow> Options" where
  "sample_options e =
     \<lparr>env = e, logger = [], broker = None, sessionStore = None, sessionName = ''zsid'',
      tmplEngine = None, webpackEnabled = False\<rparr>"

definition sample_app :: "string \<Rightarrow> App" where
  "sample_app e =
     \<lparr>opts = (sample_options e)\<lparr>sessionStore := Some (NewCookieStore sample_codec ''k'')\<rparr>,
      muxRouter = [PathPrefixRoute ''/public/'' ''./public/''],
      app_tmplEngine = NewPongo2Engine None ''templates'' ''.html'' (e = ''development''),
      middleware = \<lparr>stack = [], skips = []\<rparr>,
      routers = []\<rparr>"

definition say :: "string \<Rightarrow> RouteHandler" where
  "say name = \<lparr>fname = name, call = (\<lambda>ctx w. (Returns None, w @ [Effect name]))\<rparr>"

definition fail_with :: "string \<Rightarrow> error \<Rightarrow> RouteHandler" where
  "fail_with name e = \<lparr>fname = name, call = (\<lambda>ctx w. (Returns (Some e), w @ [Effect name]))\<rparr>"

definition panic_with :: "string \<Rightarrow> any \<Rightarrow> RouteHandler" where
  "panic_with name v = \<lparr>fname = name, call = (\<lambda>ctx w. (Panics v, w @ [Effect name]))\<rparr>"

definition probe :: "string \<times> string \<times> string \<Rightarrow> MiddlewareFunc" where
  "probe p =
     (case p of
        (name, pre, post) \<Rightarrow>
          \<lparr>mname = name,
           wrap = (\<lambda>next. \<lparr>fname = name,
                            call = (\<lambda>ctx w.
                              case call next ctx (w @ [Effect pre]) of
                                (Returns err, w1) \<Rightarrow> (Returns err, w1 @ [Effect post])
                              | (Panics r, w1) \<Rightarrow> (Panics r, w1))\<rparr>)\<rparr>)"

definition sample_request :: Request where
  "sample_request = \<lparr>reqMethod = ''GET'', reqPath = ''/x'', reqCookies = []\<rparr>"

definition sample_resource :: Resource where
  "sample_resource =
     \<lparr>List = say ''List'', Show = say ''Show'', Create = say ''Create'',
      Update = say ''Update'', Destroy = say ''Destroy''\<rparr>"

definition sample_router :: Router where
  "sample_router = \<lparr>routerRoutes = [([''GET''], ''/sub'', say ''sub'')]\<rparr>"

definition broken_engine :: Engine where
  "broken_engine =
     \<lparr>templateDir = ''templates'', ext = ''.html'', autoReload = False,
      initError = Some (errorString ''templates: no such directory''), initCalls = 0\<rparr>"

definition header_then_fail :: "string \<Rightarrow> nat \<Rightarrow> error \<Rightarrow> RouteHandler" where
  "header_then_fail name code e =
     \<lparr>fname = name, call = (\<lambda>ctx w. (Returns (Some e), w @ [CallWriteHeader code]))\<rparr>"

definition broken_app :: App where
  "broken_app = (sample_app ''production'')\<lparr>app_tmplEngine := broken_engine, routers := [sample_router]\<rparr>"

section \<open>Auxiliary facts\<close>

lemma doPrintf_plain: "CHR ''%'' \<notin> set t \<Longrightarrow> doPrintf t = t"
proof -
  assume a: "CHR ''%'' \<notin> set t"
  have d: "dropWhile (\<lambda>c. c \<noteq> CHR ''%'') t = []" using a by auto
  show ?thesis by (subst doPrintf.simps) (simp add: d)
qed

lemma doPrintf_trailing_percent: "doPrintf ''100%'' = ''100%!(NOVERB)''"
  by code_simp

lemma status_append_header:
  "status (w @ CallWriteHeader code # rest) = (case status w of None \<Rightarrow> Some code | Some s \<Rightarrow> Some s)"
proof (induction w)
  case Nil
  show ?case by simp
next
  case (Cons ev w)
  then show ?case by (cases ev) simp_all
qed

lemma handle_no_skips: "skips ms = [] \<Longrightarrow> handle ms h = foldr wrap (stack ms) h"
  by (simp add: handle_def foldl_conv_foldr)

lemma Use_groups_middleware:
  "middleware (foldl (\<lambda>a g. Use g a) app gs)
     = (middleware app)\<lparr>stack := stack (middleware app) @ concat gs\<rparr>"
  by (induction gs arbitrary: app) (simp_all add: Use_def MiddlewareStack_Use_def)

lemma probes_order:
  "call (foldr wrap (map probe ps) h) ctx w =
     (case call h ctx (w @ map (\<lambda>(name, pre, post). Effect pre) ps) of
        (Returns err, w1) \<Rightarrow> (Returns err, w1 @ rev (map (\<lambda>(name, pre, post). Effect post) ps))
      | (Panics r, w1) \<Rightarrow> (Panics r, w1))"
proof (induction ps arbitrary: w)
  case Nil
  show ?case by (simp split: prod.splits outcome.splits)
next
  case (Cons p ps)
  obtain name pre post where p: "p = (name, pre, post)" by (cases p) auto
  show ?case
    using Cons.IH [of "w @ [Effect pre]"]
    by (simp add: p probe_def split: prod.splits outcome.splits)
qed

lemma initRouterHandlers_eq:
  "initRouterHandlers app router =
     app\<lparr>muxRouter := muxRouter app @
            map (\<lambda>(methods, path, routeHandler). HandleFuncRoute path methods routeHandler)
              (routerRoutes router)\<rparr>"
proof -
  have "\<And>a. foldl (\<lambda>a (methods, path, routeHandler). HandleMethod methods path routeHandler a) a rs
          = a\<lparr>muxRouter := muxRouter a @
                 map (\<lambda>(methods, path, routeHandler). HandleFuncRoute path methods routeHandler) rs\<rparr>"
    for rs
    by (induction rs) (auto simp: HandleMethod_def)
  then show ?thesis by (simp add: initRouterHandlers_def)
qed

lemma init_routers_eq:
  "foldl initRouterHandlers app rs =
     app\<lparr>muxRouter := muxRouter app @
            concat (map (\<lambda>router. map (\<lambda>(methods, path, routeHandler). HandleFuncRoute path methods routeHandler)
                                  (routerRoutes router)) rs)\<rparr>"
  by (induction rs arbitrary: app) (simp_all add: initRouterHandlers_eq)

lemma Join_widgets: "Join [''/widgets/'', ''/{id}''] = ''/widgets/{id}''"
  by code_simp

lemma Join_dotdot: "Join [''/v1/../widgets'', ''/{id}''] = ''/widgets/{id}''"
  by code_simp

lemma sample_context:
  "requestContext (sample_app e) res req =
     Inr \<lparr>ctx_logger = Some [], ctx_broker = None, ctx_res = Some res, ctx_req = Some req,
          ctx_cookies = Some \<lparr>cookies_res = res, cookies_req = req\<rparr>,
          ctx_session = Some \<lparr>gSession = fst (sample_codec ''k'' req ''zsid''),
                                session_req = req, session_res = res\<rparr>,
          ctx_tmplEngine = Some (NewPongo2Engine None ''templates'' ''.html'' (e = ''development''))\<rparr>"
  by (simp add: requestContext_def getSession_def sample_app_def sample_options_def
      NewCookieStore_def NewDefaultContext_def split: prod.splits)

lemma sample_middleware: "middleware (sample_app e) = \<lparr>stack = [], skips = []\<rparr>"
  by (simp add: sample_app_def)

lemma sample_env: "env (opts (sample_app e)) = e"
  by (simp add: sample_app_def sample_options_def)

lemma kaboom: "Errorf ''kaboom'' = errorString ''kaboom''"
  by (simp add: Errorf_def doPrintf_plain)

lemma recovered_error_plain:
  "CHR ''%'' \<notin> set t \<Longrightarrow> recovered_error (AString t) = errorString t"
  and "CHR ''%'' \<notin> set txt \<Longrightarrow> recovered_error (Other ty txt) = errorString txt"
  by (simp_all add: Errorf_def doPrintf_plain)

lemma clean_loop_Nil: "clean_loop rooted [] out dd = out"
  by (subst clean_loop.simps) simp

lemma clean_loop_slash: "clean_loop rooted (CHR ''/'' # rest) out dd = clean_loop rooted rest out dd"
  by (subst clean_loop.simps) (simp add: clean_step_def)

lemma takeWhile_no_slash:
  "CHR ''/'' \<notin> set cs \<Longrightarrow>
     takeWhile (\<lambda>x. x \<noteq> CHR ''/'') (cs @ rest) = cs @ takeWhile (\<lambda>x. x \<noteq> CHR ''/'') rest"
  by (induction cs) auto

lemma dropWhile_no_slash:
  "CHR ''/'' \<notin> set cs \<Longrightarrow>
     dropWhile (\<lambda>x. x \<noteq> CHR ''/'') (cs @ rest) = dropWhile (\<lambda>x. x \<noteq> CHR ''/'') rest"
  by (induction cs) auto

lemma clean_step_plain:
  assumes "plain_segment (c # cs)" and "rest = [] \<or> hd rest = CHR ''/''"
  shows "clean_step True c (cs @ rest) out dd = (rest, add_segment out (c # cs), dd)"
proof -
  from assms(1) have c: "c \<noteq> CHR ''/''" and cs: "CHR ''/'' \<notin> set cs"
    by (auto simp: plain_segment_def)
  have dot1: "\<not> (c = CHR ''.'' \<and> (cs @ rest = [] \<or> hd (cs @ rest) = CHR ''/''))"
  proof
    assume a: "c = CHR ''.'' \<and> (cs @ rest = [] \<or> hd (cs @ rest) = CHR ''/'')"
    with assms(1) have "cs \<noteq> []" by (auto simp: plain_segment_def)
    with a cs show False by (cases cs) auto
  qed
  have dot2: "\<not> (c = CHR ''.'' \<and> hd (cs @ rest) = CHR ''.''
                \<and> (tl (cs @ rest) = [] \<or> hd (tl (cs @ rest)) = CHR ''/''))"
  proof
    assume a: "c = CHR ''.'' \<and> hd (cs @ rest) = CHR ''.''
                \<and> (tl (cs @ rest) = [] \<or> hd (tl (cs @ rest)) = CHR ''/'')"
    with assms(1) have ne: "cs \<noteq> []" by (auto simp: plain_segment_def)
    then obtain d ds where d: "cs = d # ds" by (cases cs) auto
    with a have "d = CHR ''.''" by simp
    with a d assms(1) have "ds \<noteq> []" by (auto simp: plain_segment_def)
    then obtain e es where e: "ds = e # es" by (cases ds) auto
    with a d cs show False by auto
  qed
  have dw: "dropWhile (\<lambda>x. x \<noteq> CHR ''/'') (cs @ rest) = rest"
    using cs assms(2) by (cases rest) (auto simp: dropWhile_no_slash)
  have tw: "takeWhile (\<lambda>x. x \<noteq> CHR ''/'') (cs @ rest) = cs"
    using cs assms(2) by (cases rest) (auto simp: takeWhile_no_slash)
  show ?thesis
    unfolding clean_step_def using c dot1 dot2
    by (simp only: if_False dw tw add_segment_def simp_thms if_True) 
qed


lemma clean_loop_segment:
  assumes "plain_segment s" and "rest = [] \<or> hd rest = CHR ''/''"
  shows "clean_loop True (s @ rest) out dd = clean_loop True rest (add_segment out s) dd"
proof -
  from assms(1) obtain c cs where s: "s = c # cs" by (cases s) (auto simp: plain_segment_def)
  show ?thesis
    using clean_step_plain [OF assms(1) [unfolded s] assms(2), of out dd]
    by (subst clean_loop.simps) (simp add: s)
qed

lemma clean_loop_segments:
  assumes "list_all plain_segment segs" and "rest = [] \<or> hd rest = CHR ''/''"
  shows "clean_loop True (concat (map (\<lambda>s. CHR ''/'' # s) segs) @ rest) out dd
         = clean_loop True rest (foldl add_segment out segs) dd"
  using assms
proof (induction segs arbitrary: out)
  case Nil
  show ?case by simp
next
  case (Cons s segs)
  have r: "concat (map (\<lambda>s. CHR ''/'' # s) segs) @ rest = []
           \<or> hd (concat (map (\<lambda>s. CHR ''/'' # s) segs) @ rest) = CHR ''/''"
    using Cons.prems(2) by (cases segs) auto
  from Cons.prems(1) have p: "plain_segment s" and ps: "list_all plain_segment segs" by auto
  show ?case
    using clean_loop_segment [OF p r, of out dd] Cons.IH [OF ps Cons.prems(2), of "add_segment out s"]
    by (simp add: clean_loop_slash)
qed

lemma foldl_add_segment:
  assumes "list_all plain_segment segs" and "length out > 1"
  shows "foldl add_segment out segs = out @ concat (map (\<lambda>s. CHR ''/'' # s) segs)"
  using assms
proof (induction segs arbitrary: out)
  case Nil
  show ?case by simp
next
  case (Cons s segs)
  from Cons.prems(2) have "length out \<noteq> 1" by linarith
  then have a: "add_segment out s = out @ CHR ''/'' # s"
    unfolding add_segment_def by (simp only: if_True) simp
  have l: "length (add_segment out s) > 1" unfolding a using Cons.prems(2) by (cases out) auto
  from Cons.prems have ps: "list_all plain_segment segs" by simp
  show ?case using Cons.IH [OF ps l] by (simp add: a)
qed

lemma id_segment: "plain_segment ''{id}''"
  by (simp add: plain_segment_def)

lemma Join_id_plain:
  assumes "segs \<noteq> []" and "list_all plain_segment segs"
  shows "Join [concat (map (\<lambda>s. CHR ''/'' # s) segs), ''/{id}'']
         = concat (map (\<lambda>s. CHR ''/'' # s) segs) @ ''/{id}''"
proof -
  from assms(1) obtain s ss where segs: "segs = s # ss" by (cases segs) auto
  from assms(2) segs have p: "plain_segment s" and ps: "list_all plain_segment ss" by auto
  from p have sne: "s \<noteq> []" by (simp add: plain_segment_def)
  let ?P = "concat (map (\<lambda>s. CHR ''/'' # s) segs)"
  let ?Q = "concat (map (\<lambda>s. CHR ''/'' # s) ss)"
  have r1: "?Q @ ''//{id}'' = [] \<or> hd (?Q @ ''//{id}'') = CHR ''/''" by (cases ss) auto
  have r2: "''//{id}'' = [] \<or> hd ''//{id}'' = CHR ''/''" by simp
  have l1: "length (add_segment ''/'' s) > 1" using sne by (simp add: add_segment_def)
  have a1: "add_segment ''/'' s = CHR ''/'' # s" by (simp add: add_segment_def)
  have "clean_loop True (s @ ?Q @ ''//{id}'') ''/'' 1
        = clean_loop True (?Q @ ''//{id}'') (add_segment ''/'' s) 1"
    by (rule clean_loop_segment [OF p r1])
  also have "\<dots> = clean_loop True ''//{id}'' (foldl add_segment (add_segment ''/'' s) ss) 1"
    by (rule clean_loop_segments [OF ps r2])
  also have "\<dots> = clean_loop True (''{id}'' @ []) (add_segment ''/'' s @ ?Q) 1"
    by (simp add: clean_loop_slash foldl_add_segment [OF ps l1])
  also have "\<dots> = clean_loop True [] (add_segment (add_segment ''/'' s @ ?Q) ''{id}'') 1"
    by (rule clean_loop_segment [OF id_segment]) simp
  also have "\<dots> = ?P @ ''/{id}''"
    using sne by (simp add: clean_loop_Nil add_segment_def segs)
  finally have loop: "clean_loop True (s @ ?Q @ ''//{id}'') ''/'' 1 = ?P @ ''/{id}''" .
  have "Join [?P, ''/{id}''] = Clean (?P @ ''//{id}'')"
    by (simp add: Join_def segs)
  also have "\<dots> = ?P @ ''/{id}''"
    using loop by (simp add: Clean_def segs)
  finally show ?thesis .
qed

lemma requestContext_frame:
  assumes "opts a2 = opts a1" and "app_tmplEngine a2 = app_tmplEngine a1"
  shows "requestContext a2 res req = requestContext a1 res req"
  unfolding requestContext_def getSession_def assms by (rule refl)

lemma dispatch_frame:
  assumes "opts a2 = opts a1" and "app_tmplEngine a2 = app_tmplEngine a1"
    and "middleware a2 = middleware a1"
  shows "dispatch a2 routeHandler res req w = dispatch a1 routeHandler res req w"
proof -
  have c: "requestContext a2 res req = requestContext a1 res req"
    by (rule requestContext_frame [OF assms(1) assms(2)])
  have h: "HandleError a2 = HandleError a1"
    using assms(1) by (simp add: HandleError_def fun_eq_iff)
  have d: "deferred a2 = deferred a1"
    by (simp add: deferred_def fun_eq_iff h)
  show ?thesis
    unfolding dispatch_def c h d assms(3) by (rule refl)
qed

lemma requestContext_Inr:
  "sessionStore (opts app) = Some store \<Longrightarrow> \<exists>ctx. requestContext app res req = Inr ctx"
  by (simp add: requestContext_def getSession_def split: prod.splits)

lemma Init_frame:
  "opts (snd (Init app)) = opts app \<and> middleware (snd (Init app)) = middleware app"
  by (simp add: Init_def init_routers_eq Engine_Init_def Let_def split: option.splits)

lemma sample_store:
  "sessionStore (opts (sample_app e)) = Some (NewCookieStore sample_codec ''k'')"
  by (simp add: sample_app_def sample_options_def)

lemma dispatch_outcome:
  assumes "requestContext app res req = Inr ctx"
    and "call (handle (middleware app) routeHandler) ctx w = (out, w1)"
  shows "dispatch app routeHandler res req w =
           (None, case out of
                    Panics r \<Rightarrow> if r \<noteq> Nil then HandleError app res req (recovered_error r) w1 else w1
                  | Returns None \<Rightarrow> w1
                  | Returns (Some e) \<Rightarrow> HandleError app res req e w1)"
  using assms by (simp add: dispatch_def deferred_def Let_def split: outcome.splits option.splits)

lemma HandleError_events:
  "HandleError app res req e w =
     w @ CallWriteHeader 500 #
       (if env (opts app) = ''development'' then [DevelopmentErrorPage req e] else [])"
  by (simp add: HandleError_def WriteHeader_def RenderDevelopmentError_def)

lemma probes_chain:
  assumes "stack ms = map probe ps" and "skips ms = []"
  shows "call (handle ms h) ctx w =
     (case call h ctx (w @ map (\<lambda>(name, pre, post). Effect pre) ps) of
        (Returns err, w1) \<Rightarrow> (Returns err, w1 @ rev (map (\<lambda>(name, pre, post). Effect post) ps))
      | (Panics r, w1) \<Rightarrow> (Panics r, w1))"
  using assms by (simp add: handle_no_skips probes_order)

lemma probed_context:
  "requestContext (Use mw (sample_app e)) res req = requestContext (sample_app e) res req"
  by (rule requestContext_frame) (simp_all add: Use_def)

lemma probed_middleware:
  "middleware (Use [probe p] (sample_app e)) = \<lparr>stack = [probe p], skips = []\<rparr>"
  by (simp add: Use_def MiddlewareStack_Use_def sample_middleware)

lemma probed_env: "env (opts (Use mw (sample_app e))) = e"
  by (simp add: Use_def sample_env)

lemma Init_result:
  "snd (Init app) =
     app\<lparr>muxRouter := muxRouter app @
            concat (map (\<lambda>router. map (\<lambda>(methods, path, routeHandler). HandleFuncRoute path methods routeHandler)
                                  (routerRoutes router)) (routers app)),
         app_tmplEngine := (app_tmplEngine app)\<lparr>initCalls := initCalls (app_tmplEngine app) + 1\<rparr>\<rparr>"
  by (simp add: Init_def Engine_Init_def init_routers_eq Let_def split: option.splits)

lemma Init_abort:
  "fst (Init app) = (case initError (app_tmplEngine app) of
                       None \<Rightarrow> None | Some e \<Rightarrow> Some (Panic (AnError e)))"
  by (simp add: Init_def Engine_Init_def init_routers_eq Let_def split: option.splits)

section \<open>Panics and returned errors\<close>

text \<open>
  Claim C1, as the code has it. When the composed chain of a route panics and the value \<open>r\<close>
  that \<^verbatim>\<open>recover()\<close> returns is not nil, the generated function catches the panic (none
  leaves it) and calls the Error Handler once, with the error the type switch builds from
  \<open>r\<close>: \<open>r\<close> itself when it is an error, and an error whose message is the text when \<open>r\<close> is
  a string, or another value, whose text holds no \<^verbatim>\<open>%\<close>. The outcome is that of a composed
  chain that has had the same effects and returns that error: \<^verbatim>\<open>WriteHeader(500)\<close>, then the
  diagnostic page in development. The equivalence is one of composed chains, not of
  handlers: a panic passes by what a middleware does after the handler it wraps, a returned
  error does not, so under middleware that leave a mark after the handler the two outcomes
  differ by exactly those marks. A panic whose recovered value is nil is caught and the
  Error Handler is not called.
\<close>

theorem panic_reaches_error_handler:
  assumes "requestContext app res req = Inr ctx"
  shows "(call (handle (middleware app) panicking) ctx w = (Panics r, w1) \<and> r \<noteq> Nil \<longrightarrow>
            dispatch app panicking res req w =
              (None, w1 @ CallWriteHeader 500 #
                       (if env (opts app) = ''development''
                        then [DevelopmentErrorPage req (recovered_error r)] else []))
            \<and> (call (handle (middleware app) returning) ctx w
                  = (Returns (Some (recovered_error r)), w1) \<longrightarrow>
                dispatch app returning res req w = dispatch app panicking res req w))
       \<and> recovered_error (AnError e) = e
       \<and> (CHR ''%'' \<notin> set t \<longrightarrow>
            recovered_error (AString t) = errorString t
            \<and> recovered_error (Other ty t) = errorString t)
       \<and> (call (handle (middleware app) panicking) ctx w = (Panics Nil, w1) \<longrightarrow>
            dispatch app panicking res req w = (None, w1))
       \<and> (stack (middleware app) = map probe ps \<and> skips (middleware app) = [] \<and> r \<noteq> Nil
            \<and> call hp ctx (w @ map (\<lambda>(name, pre, post). Effect pre) ps) = (Panics r, w1)
            \<and> call he ctx (w @ map (\<lambda>(name, pre, post). Effect pre) ps)
                 = (Returns (Some (recovered_error r)), w1) \<longrightarrow>
            dispatch app hp res req w = (None, HandleError app res req (recovered_error r) w1)
            \<and> dispatch app he res req w =
                (None, HandleError app res req (recovered_error r)
                         (w1 @ rev (map (\<lambda>(name, pre, post). Effect post) ps))))"
proof -
  have caught: "dispatch app panicking res req w =
              (None, w1 @ CallWriteHeader 500 #
                       (if env (opts app) = ''development''
                        then [DevelopmentErrorPage req (recovered_error r)] else []))"
    if "call (handle (middleware app) panicking) ctx w = (Panics r, w1)" and "r \<noteq> Nil"
    using dispatch_outcome [OF assms that(1)] that(2) by (simp add: HandleError_events)
  have same: "dispatch app returning res req w = dispatch app panicking res req w"
    if "call (handle (middleware app) panicking) ctx w = (Panics r, w1)" and "r \<noteq> Nil"
      and "call (handle (middleware app) returning) ctx w = (Returns (Some (recovered_error r)), w1)"
    using dispatch_outcome [OF assms that(1)] dispatch_outcome [OF assms that(3)] that(2) by simp
  have plain: "recovered_error (AString t) = errorString t \<and> recovered_error (Other ty t) = errorString t"
    if "CHR ''%'' \<notin> set t"
    using that by (simp add: Errorf_def doPrintf_plain)
  have swallowed: "dispatch app panicking res req w = (None, w1)"
    if "call (handle (middleware app) panicking) ctx w = (Panics Nil, w1)"
    using dispatch_outcome [OF assms that] by simp
  have under: "dispatch app hp res req w = (None, HandleError app res req (recovered_error r) w1)
            \<and> dispatch app he res req w =
                (None, HandleError app res req (recovered_error r)
                         (w1 @ rev (map (\<lambda>(name, pre, post). Effect post) ps)))"
    if s: "stack (middleware app) = map probe ps" "skips (middleware app) = []" and n: "r \<noteq> Nil"
      and p: "call hp ctx (w @ map (\<lambda>(name, pre, post). Effect pre) ps) = (Panics r, w1)"
      and q: "call he ctx (w @ map (\<lambda>(name, pre, post). Effect pre) ps)
                 = (Returns (Some (recovered_error r)), w1)"
  proof -
    have cp: "call (handle (middleware app) hp) ctx w = (Panics r, w1)"
      by (simp add: probes_chain [OF s] p)
    have cq: "call (handle (middleware app) he) ctx w
              = (Returns (Some (recovered_error r)),
                 w1 @ rev (map (\<lambda>(name, pre, post). Effect post) ps))"
      by (simp add: probes_chain [OF s] q)
    show ?thesis
      using dispatch_outcome [OF assms cp] dispatch_outcome [OF assms cq] n by simp
  qed
  from caught same plain swallowed under show ?thesis by simp
qed


theorem panic_reaches_error_handler_witness:
  "dispatch (sample_app ''development'') (panic_with ''boom'' (AString ''kaboom'')) 0 sample_request []
     = (None, [Effect ''boom'', CallWriteHeader 500,
               DevelopmentErrorPage sample_request (errorString ''kaboom'')])
   \<and> dispatch (sample_app ''development'') (fail_with ''boom'' (errorString ''kaboom'')) 0 sample_request []
     = dispatch (sample_app ''development'') (panic_with ''boom'' (AString ''kaboom'')) 0 sample_request []
   \<and> dispatch (Use [probe (''m'', ''pre'', ''post'')] (sample_app ''development''))
        (panic_with ''boom'' (AString ''kaboom'')) 0 sample_request []
     = (None, [Effect ''pre'', Effect ''boom'', CallWriteHeader 500,
               DevelopmentErrorPage sample_request (errorString ''kaboom'')])
   \<and> dispatch (Use [probe (''m'', ''pre'', ''post'')] (sample_app ''development''))
        (fail_with ''boom'' (errorString ''kaboom'')) 0 sample_request []
     = (None, [Effect ''pre'', Effect ''boom'', Effect ''post'', CallWriteHeader 500,
               DevelopmentErrorPage sample_request (errorString ''kaboom'')])"
proof -
  let ?probed = "Use [probe (''m'', ''pre'', ''post'')] (sample_app ''development'')"
  have n: "AString ''kaboom'' \<noteq> Nil" by simp
  have p: "call (handle (middleware (sample_app ''development'')) (panic_with ''boom'' (AString ''kaboom'')))
             c [] = (Panics (AString ''kaboom''), [Effect ''boom''])" for c
    by (simp add: sample_middleware handle_def panic_with_def)
  have q: "call (handle (middleware (sample_app ''development'')) (fail_with ''boom'' (errorString ''kaboom'')))
             c [] = (Returns (Some (recovered_error (AString ''kaboom''))), [Effect ''boom''])" for c
    by (simp add: sample_middleware handle_def fail_with_def kaboom)
  have hp: "call (panic_with ''boom'' (AString ''kaboom'')) c
              ([] @ map (\<lambda>(name, pre, post). Effect pre) [(''m'', ''pre'', ''post'')])
            = (Panics (AString ''kaboom''), [Effect ''pre'', Effect ''boom''])" for c
    by (simp add: panic_with_def)
  have he: "call (fail_with ''boom'' (errorString ''kaboom'')) c
              ([] @ map (\<lambda>(name, pre, post). Effect pre) [(''m'', ''pre'', ''post'')])
            = (Returns (Some (recovered_error (AString ''kaboom''))), [Effect ''pre'', Effect ''boom''])" for c
    by (simp add: fail_with_def kaboom)
  have s: "stack (middleware ?probed) = map probe [(''m'', ''pre'', ''post'')]
           \<and> skips (middleware ?probed) = []"
    by (simp add: probed_middleware)
  have c2: "requestContext ?probed 0 sample_request = Inr
          \<lparr>ctx_logger = Some [], ctx_broker = None, ctx_res = Some 0, ctx_req = Some sample_request,
          ctx_cookies = Some \<lparr>cookies_res = 0, cookies_req = sample_request\<rparr>,
          ctx_session = Some \<lparr>gSession = fst (sample_codec ''k'' sample_request ''zsid''),
                                session_req = sample_request, session_res = 0\<rparr>,
          ctx_tmplEngine = Some (NewPongo2Engine None ''templates'' ''.html'' (''development'' = ''development''))\<rparr>"
    by (simp only: probed_context sample_context)
  have a: "dispatch (sample_app ''development'') (panic_with ''boom'' (AString ''kaboom'')) 0 sample_request []
     = (None, [Effect ''boom'', CallWriteHeader 500,
               DevelopmentErrorPage sample_request (errorString ''kaboom'')])
   \<and> dispatch (sample_app ''development'') (fail_with ''boom'' (errorString ''kaboom'')) 0 sample_request []
     = dispatch (sample_app ''development'') (panic_with ''boom'' (AString ''kaboom'')) 0 sample_request []"
    using panic_reaches_error_handler [OF sample_context [of "''development''" 0 sample_request],
            where panicking = "panic_with ''boom'' (AString ''kaboom'')"
              and returning = "fail_with ''boom'' (errorString ''kaboom'')"
              and r = "AString ''kaboom''" and w = "[]" and ?w1.0 = "[Effect ''boom'']"]
          n p q
    by (simp add: sample_env kaboom)
  have b: "dispatch ?probed (panic_with ''boom'' (AString ''kaboom'')) 0 sample_request []
     = (None, [Effect ''pre'', Effect ''boom'', CallWriteHeader 500,
               DevelopmentErrorPage sample_request (errorString ''kaboom'')])
   \<and> dispatch ?probed (fail_with ''boom'' (errorString ''kaboom'')) 0 sample_request []
     = (None, [Effect ''pre'', Effect ''boom'', Effect ''post'', CallWriteHeader 500,
               DevelopmentErrorPage sample_request (errorString ''kaboom'')])"
    using panic_reaches_error_handler [OF c2,
            where hp = "panic_with ''boom'' (AString ''kaboom'')"
              and he = "fail_with ''boom'' (errorString ''kaboom'')"
              and ps = "[(''m'', ''pre'', ''post'')]"
              and r = "AString ''kaboom''" and w = "[]" and ?w1.0 = "[Effect ''pre'', Effect ''boom'']"]
          n s hp he
    by (simp add: HandleError_events probed_env kaboom)
  from a b show ?thesis by simp
qed

text \<open>
  Claim C1, as stated, fails. Under a middleware that leaves a mark after the handler it
  wraps, a handler that panics with an error and the otherwise identical handler that
  returns that error have different outcomes; and a handler whose panic is recovered as nil
  gets no call of the Error Handler and no status 500.
\<close>

theorem panic_differs_from_returned_error:
  "dispatch (Use [probe (''m'', ''pre'', ''post'')] (sample_app ''development''))
        (panic_with ''boom'' (AnError (errorString ''kaboom''))) 0 sample_request []
     = (None, [Effect ''pre'', Effect ''boom'', CallWriteHeader 500,
               DevelopmentErrorPage sample_request (errorString ''kaboom'')])
   \<and> dispatch (Use [probe (''m'', ''pre'', ''post'')] (sample_app ''development''))
        (fail_with ''boom'' (errorString ''kaboom'')) 0 sample_request []
     = (None, [Effect ''pre'', Effect ''boom'', Effect ''post'', CallWriteHeader 500,
               DevelopmentErrorPage sample_request (errorString ''kaboom'')])
   \<and> dispatch (sample_app ''development'') (panic_with ''boom'' Nil) 0 sample_request []
     = (None, [Effect ''boom''])"
proof -
  let ?probed = "Use [probe (''m'', ''pre'', ''post'')] (sample_app ''development'')"
  have cp: "call (handle (middleware ?probed) (panic_with ''boom'' (AnError (errorString ''kaboom'')))) c []
            = (Panics (AnError (errorString ''kaboom'')), [Effect ''pre'', Effect ''boom''])" for c
    unfolding probed_middleware by (simp add: handle_def probe_def panic_with_def)
  have cq: "call (handle (middleware ?probed) (fail_with ''boom'' (errorString ''kaboom''))) c []
            = (Returns (Some (errorString ''kaboom'')), [Effect ''pre'', Effect ''boom'', Effect ''post''])" for c
    unfolding probed_middleware by (simp add: handle_def probe_def fail_with_def)
  have cn: "call (handle (middleware (sample_app ''development'')) (panic_with ''boom'' Nil)) c []
            = (Panics Nil, [Effect ''boom''])" for c
    by (simp add: sample_middleware handle_def panic_with_def)
  have c2: "requestContext ?probed 0 sample_request = requestContext (sample_app ''development'') 0 sample_request"
    by (rule probed_context)
  have d1: "dispatch ?probed (panic_with ''boom'' (AnError (errorString ''kaboom''))) 0 sample_request []
     = (None, [Effect ''pre'', Effect ''boom'', CallWriteHeader 500,
               DevelopmentErrorPage sample_request (errorString ''kaboom'')])"
    using dispatch_outcome [OF c2 [unfolded sample_context] cp]
    by (simp add: HandleError_events probed_env)
  have d2: "dispatch ?probed (fail_with ''boom'' (errorString ''kaboom'')) 0 sample_request []
     = (None, [Effect ''pre'', Effect ''boom'', Effect ''post'', CallWriteHeader 500,
               DevelopmentErrorPage sample_request (errorString ''kaboom'')])"
    using dispatch_outcome [OF c2 [unfolded sample_context] cq]
    by (simp add: HandleError_events probed_env)
  have d3: "dispatch (sample_app ''development'') (panic_with ''boom'' Nil) 0 sample_request []
     = (None, [Effect ''boom''])"
    using dispatch_outcome [OF sample_context cn] by simp
  from d1 d2 d3 show ?thesis by simp
qed

text \<open>
  Claim C3. The type switch passes an error through unchanged. For a string it calls
  \<^verbatim>\<open>fmt.Errorf(t)\<close>, which reads the string as a format: the message is the string itself
  only when it holds no \<^verbatim>\<open>%\<close>. A panic with the string \<^verbatim>\<open>100%\<close> gives an error whose message
  is \<^verbatim>\<open>100%!(NOVERB)\<close>, and likewise for any other value whose text holds a \<^verbatim>\<open>%\<close>.
\<close>

theorem recovered_string_is_format:
  "recovered_error (AnError e) = e
   \<and> recovered_error (AString ''100%'') = errorString ''100%!(NOVERB)''
   \<and> Error (recovered_error (AString ''100%'')) \<noteq> ''100%''
   \<and> Error (recovered_error (Other ''main.Ratio'' ''50%'')) \<noteq> ''50%''"
proof -
  have a: "Errorf ''100%'' = errorString ''100%!(NOVERB)''" by code_simp
  have b: "Errorf ''50%'' = errorString ''50%!(NOVERB)''" by code_simp
  show ?thesis by (simp add: a b)
qed

section \<open>The Error Handler\<close>

text \<open>
  Claim C5, as the code has it. The Error Handler calls \<^verbatim>\<open>WriteHeader(500)\<close> once for every
  error, followed in the development environment by the diagnostic page for the error and
  the request, and by nothing in any other environment. When the chain of a request returns
  an error or panics (with a value that is not nil), the generated function calls the Error
  Handler exactly once, on what the chain has left: one more \<^verbatim>\<open>WriteHeader(500)\<close> than the
  chain itself made. The client receives 500 when the chain had written nothing to the
  response; when the chain had written a header or a body, the call is a second write and
  the status stays the one the chain sent.
\<close>

theorem failed_request_status_500:
  assumes "requestContext app res req = Inr ctx"
    and "call (handle (middleware app) routeHandler) ctx w = (out, w1)"
    and "out = Returns (Some e) \<or> (\<exists>r. r \<noteq> Nil \<and> out = Panics r \<and> e = recovered_error r)"
  shows "HandleError app res req e w1 =
           w1 @ CallWriteHeader 500 #
             (if env (opts app) = ''development'' then [DevelopmentErrorPage req e] else [])
       \<and> dispatch app routeHandler res req w = (None, HandleError app res req e w1)
       \<and> length (filter (\<lambda>ev. ev = CallWriteHeader 500) (snd (dispatch app routeHandler res req w)))
           = length (filter (\<lambda>ev. ev = CallWriteHeader 500) w1) + 1
       \<and> (status w1 = None \<longrightarrow> status (snd (dispatch app routeHandler res req w)) = Some 500)
       \<and> (status w1 = Some s \<longrightarrow> status (snd (dispatch app routeHandler res req w)) = Some s)"
proof -
  have he: "HandleError app res req e w1 =
           w1 @ CallWriteHeader 500 #
             (if env (opts app) = ''development'' then [DevelopmentErrorPage req e] else [])"
    by (rule HandleError_events)
  have d: "dispatch app routeHandler res req w = (None, HandleError app res req e w1)"
    using assms by (auto simp: dispatch_def deferred_def Let_def)
  have c: "length (filter (\<lambda>ev. ev = CallWriteHeader 500) (HandleError app res req e w1))
           = length (filter (\<lambda>ev. ev = CallWriteHeader 500) w1) + 1"
    by (simp add: he)
  have s0: "status w1 = None \<longrightarrow> status (HandleError app res req e w1) = Some 500"
    by (simp only: he status_append_header) simp
  have s1: "status w1 = Some s \<longrightarrow> status (HandleError app res req e w1) = Some s"
    by (simp only: he status_append_header) simp
  from he d c s0 s1 show ?thesis by simp
qed

theorem failed_request_status_500_witness:
  "dispatch (sample_app ''development'') (fail_with ''boom'' (errorString ''kaboom'')) 0 sample_request []
     = (None, [Effect ''boom'', CallWriteHeader 500, DevelopmentErrorPage sample_request (errorString ''kaboom'')])
   \<and> status (snd (dispatch (sample_app ''development'') (fail_with ''boom'' (errorString ''kaboom''))
                     0 sample_request [])) = Some 500
   \<and> dispatch (sample_app ''production'') (header_then_fail ''h'' 200 (errorString ''kaboom'')) 0 sample_request []
     = (None, [CallWriteHeader 200, CallWriteHeader 500])
   \<and> status (snd (dispatch (sample_app ''production'') (header_then_fail ''h'' 200 (errorString ''kaboom''))
                     0 sample_request [])) = Some 200"
proof -
  have q: "call (handle (middleware (sample_app ''development'')) (fail_with ''boom'' (errorString ''kaboom'')))
             c [] = (Returns (Some (errorString ''kaboom'')), [Effect ''boom''])" for c
    by (simp add: sample_middleware handle_def fail_with_def)
  have q2: "call (handle (middleware (sample_app ''production'')) (header_then_fail ''h'' 200 (errorString ''kaboom'')))
             c [] = (Returns (Some (errorString ''kaboom'')), [CallWriteHeader 200])" for c
    by (simp add: sample_middleware handle_def header_then_fail_def)
  have o: "Returns (Some (errorString ''kaboom'')) = Returns (Some (errorString ''kaboom''))
           \<or> (\<exists>r. r \<noteq> Nil \<and> Returns (Some (errorString ''kaboom'')) = Panics r
                 \<and> errorString ''kaboom'' = recovered_error r)"
    by simp
  from failed_request_status_500 [OF sample_context q o, of 0 sample_request 0]
       failed_request_status_500 [OF sample_context q2 o, of 0 sample_request 200]
  show ?thesis by (simp add: sample_env)
qed

text \<open>
  Claim C5, as stated, fails. A handler calls \<^verbatim>\<open>WriteHeader(200)\<close> and then returns an error:
  the \<^verbatim>\<open>WriteHeader(500)\<close> of the Error Handler is a second write to the response, and the
  client receives 200. A handler that has written 500 itself gives two writes of 500.
\<close>

theorem second_write_after_header:
  "dispatch (sample_app ''production'') (header_then_fail ''h'' 200 (errorString ''kaboom'')) 0 sample_request []
     = (None, [CallWriteHeader 200, CallWriteHeader 500])
   \<and> status [CallWriteHeader 200, CallWriteHeader 500] = Some 200
   \<and> dispatch (sample_app ''production'') (header_then_fail ''h'' 500 (errorString ''kaboom'')) 0 sample_request []
     = (None, [CallWriteHeader 500, CallWriteHeader 500])"
proof -
  have q: "call (handle (middleware (sample_app ''production'')) (header_then_fail ''h'' code (errorString ''kaboom'')))
             c [] = (Returns (Some (errorString ''kaboom'')), [CallWriteHeader code])" for c code
    by (simp add: sample_middleware handle_def header_then_fail_def)
  have d: "dispatch (sample_app ''production'') (header_then_fail ''h'' code (errorString ''kaboom'')) 0 sample_request []
     = (None, [CallWriteHeader code, CallWriteHeader 500])" for code
    using dispatch_outcome [OF sample_context q] by (simp add: HandleError_events sample_env)
  show ?thesis by (simp add: d)
qed

section \<open>The session secret\<close>

text \<open>
  Claim C6. With no session store in the options and \<^verbatim>\<open>SESSION_SECRET\<close> unset (or empty),
  \<^verbatim>\<open>NewApp\<close> in the production environment ends in the fatal exit of the logger, so no
  application is returned that could be initialised or served; in the development
  environment it returns the application, the warning is logged and the cookie store is
  keyed with \<^verbatim>\<open>development-secret\<close>.
\<close>

theorem NewApp_session_secret:
  assumes "sessionStore options = None"
    and "Getenv environ ''SESSION_SECRET'' = []"
  shows "(env options = ''production'' \<longrightarrow>
            NewApp codec disk environ options =
              Inl (Exit 1 (logger options @
                     [(FatalLevel, ''Missing a required environment variable: SESSION_SECRET'')])))
       \<and> (env options = ''development'' \<longrightarrow>
            (\<exists>app. NewApp codec disk environ options = Inr app
               \<and> logger (opts app) = logger options @
                     [(WarnLevel, ''You will need to setup a SESSION_SECRET in production mode.'')]
               \<and> sessionStore (opts app) = Some (NewCookieStore codec ''development-secret'')
               \<and> keyPairs (NewCookieStore codec ''development-secret'') = [''development-secret'']))"
  using assms
  by (auto simp: NewApp_def setupSession_def Fatalf_def Warn_def NewCookieStore_def Let_def)

theorem NewApp_session_secret_witness:
  "NewApp sample_codec None Map.empty (sample_options ''production'')
     = Inl (Exit 1 [(FatalLevel, ''Missing a required environment variable: SESSION_SECRET'')])
   \<and> (\<exists>app. NewApp sample_codec None Map.empty (sample_options ''development'') = Inr app
         \<and> logger (opts app) =
             [(WarnLevel, ''You will need to setup a SESSION_SECRET in production mode.'')]
         \<and> sessionStore (opts app) = Some (NewCookieStore sample_codec ''development-secret''))"
proof -
  have s: "sessionStore (sample_options e) = None" for e by (simp add: sample_options_def)
  have g: "Getenv Map.empty ''SESSION_SECRET'' = []" by (simp add: Getenv_def)
  from NewApp_session_secret [OF s g, of "''production''" sample_codec None]
       NewApp_session_secret [OF s g, of "''development''" sample_codec None]
  show ?thesis by (auto simp: sample_options_def)
qed

text \<open>
  Claim C9. With no session store, an empty \<^verbatim>\<open>SESSION_SECRET\<close> and an environment that is
  neither \<^verbatim>\<open>production\<close> nor \<^verbatim>\<open>development\<close>, \<^verbatim>\<open>setupSession\<close> returns normally, leaves the
  logger as it was and installs a cookie store keyed with the empty string.
\<close>

theorem setupSession_other_env:
  assumes "sessionStore (opts app) = None"
    and "Getenv environ ''SESSION_SECRET'' = []"
    and "env (opts app) \<noteq> ''production''"
    and "env (opts app) \<noteq> ''development''"
  shows "setupSession codec environ app =
           Inr (app\<lparr>opts := (opts app)\<lparr>sessionStore := Some (NewCookieStore codec [])\<rparr>\<rparr>)
       \<and> keyPairs (NewCookieStore codec []) = [[]]"
  using assms by (simp add: setupSession_def NewCookieStore_def)

theorem setupSession_other_env_witness:
  "setupSession sample_codec Map.empty
     \<lparr>opts = sample_options ''staging'', muxRouter = [],
      app_tmplEngine = NewPongo2Engine None ''templates'' ''.html'' False,
      middleware = \<lparr>stack = [], skips = []\<rparr>, routers = []\<rparr>
   = Inr \<lparr>opts = \<lparr>env = ''staging'', logger = [], broker = None,
                    sessionStore = Some (NewCookieStore sample_codec []),
                    sessionName = ''zsid'', tmplEngine = None, webpackEnabled = False\<rparr>,
          muxRouter = [],
          app_tmplEngine = NewPongo2Engine None ''templates'' ''.html'' False,
          middleware = \<lparr>stack = [], skips = []\<rparr>, routers = []\<rparr>"
  using setupSession_other_env [of "\<lparr>opts = sample_options ''staging'', muxRouter = [],
      app_tmplEngine = NewPongo2Engine None ''templates'' ''.html'' False,
      middleware = \<lparr>stack = [], skips = []\<rparr>, routers = []\<rparr>" Map.empty sample_codec]
  by (simp add: sample_options_def Getenv_def)

section \<open>The session of a request\<close>

text \<open>
  Claim C10. \<^verbatim>\<open>getSession\<close> drops the error of the store's \<^verbatim>\<open>Get\<close>: with a store set, it
  returns a session that wraps whatever session the store gave, with the request and the
  response writer at hand; that session is the one attached to the context; no panic leaves
  the generated function; and the outcome of the request is the same whatever errors the
  store returns next to the same sessions. An application that \<^verbatim>\<open>NewApp\<close> returns has a store
  set.
\<close>

theorem getSession_discards_error:
  assumes "sessionStore (opts app) = Some store"
  shows "getSession app res req =
           Inr \<lparr>gSession = fst (store_Get store req (sessionName (opts app))),
                session_req = req, session_res = res\<rparr>
       \<and> (\<exists>ctx. requestContext app res req = Inr ctx
              \<and> ctx_session ctx =
                  Some \<lparr>gSession = fst (store_Get store req (sessionName (opts app))),
                        session_req = req, session_res = res\<rparr>)
       \<and> fst (dispatch app routeHandler res req w) = None
       \<and> dispatch (app\<lparr>opts := (opts app)\<lparr>sessionStore :=
            Some (store\<lparr>store_Get := \<lambda>r n. (fst (store_Get store r n), err r n)\<rparr>)\<rparr>\<rparr>)
            routeHandler res req w
          = dispatch app routeHandler res req w
       \<and> (NewApp codec disk environ options = Inr built \<longrightarrow> sessionStore (opts built) \<noteq> None)"
proof -
  have n: "NewApp codec disk environ options = Inr built \<longrightarrow> sessionStore (opts built) \<noteq> None"
    by (auto simp: NewApp_def setupSession_def Let_def split: if_splits)
  show ?thesis
    using assms n
    by (auto simp: getSession_def requestContext_def dispatch_def deferred_def HandleError_def
        Let_def split: prod.splits outcome.splits option.splits)
qed

theorem getSession_discards_error_witness:
  "getSession (sample_app ''production'') 0 (sample_request\<lparr>reqCookies := [(''zsid'', ''forged'')]\<rparr>)
     = Inr \<lparr>gSession = Some \<lparr>sessionName' = ''zsid'', sessionValues = [], IsNew = True\<rparr>,
            session_req = sample_request\<lparr>reqCookies := [(''zsid'', ''forged'')]\<rparr>, session_res = 0\<rparr>
   \<and> snd (sample_codec ''k'' (sample_request\<lparr>reqCookies := [(''zsid'', ''forged'')]\<rparr>) ''zsid'')
       = Some (errorString ''securecookie: the value is not valid'')
   \<and> dispatch (sample_app ''production'') (say ''handler'') 0
        (sample_request\<lparr>reqCookies := [(''zsid'', ''forged'')]\<rparr>) []
       = (None, [Effect ''handler''])"
proof -
  have s: "sessionStore (opts (sample_app ''production'')) = Some (NewCookieStore sample_codec ''k'')"
    by (simp add: sample_app_def sample_options_def)
  have c: "sample_codec ''k'' (sample_request\<lparr>reqCookies := [(''zsid'', ''forged'')]\<rparr>) ''zsid''
           = (Some \<lparr>sessionName' = ''zsid'', sessionValues = [], IsNew = True\<rparr>,
              Some (errorString ''securecookie: the value is not valid''))"
    by (simp add: sample_codec_def sample_request_def)
  have d: "dispatch (sample_app ''production'') (say ''handler'') 0
        (sample_request\<lparr>reqCookies := [(''zsid'', ''forged'')]\<rparr>) []
       = (None, [Effect ''handler''])"
    by (simp add: dispatch_def sample_context sample_middleware handle_def say_def deferred_def)
  from getSession_discards_error [OF s, of 0 "sample_request\<lparr>reqCookies := [(''zsid'', ''forged'')]\<rparr>"
         "say ''handler''" "[]" "\<lambda>r n. None"]
  have "getSession (sample_app ''production'') 0 (sample_request\<lparr>reqCookies := [(''zsid'', ''forged'')]\<rparr>)
     = Inr \<lparr>gSession = fst (store_Get (NewCookieStore sample_codec ''k'')
                              (sample_request\<lparr>reqCookies := [(''zsid'', ''forged'')]\<rparr>)
                              (sessionName (opts (sample_app ''production'')))),
            session_req = sample_request\<lparr>reqCookies := [(''zsid'', ''forged'')]\<rparr>, session_res = 0\<rparr>"
    by blast
  moreover have "sessionName (opts (sample_app ''production'')) = ''zsid''"
    by (simp add: sample_app_def sample_options_def)
  ultimately have "getSession (sample_app ''production'') 0 (sample_request\<lparr>reqCookies := [(''zsid'', ''forged'')]\<rparr>)
     = Inr \<lparr>gSession = Some \<lparr>sessionName' = ''zsid'', sessionValues = [], IsNew = True\<rparr>,
            session_req = sample_request\<lparr>reqCookies := [(''zsid'', ''forged'')]\<rparr>, session_res = 0\<rparr>"
    by (simp add: c NewCookieStore_def)
  with c d show ?thesis by simp
qed

section \<open>The middleware chain\<close>

text \<open>
  Claim C4. Middleware registered with \<^verbatim>\<open>Use\<close>, in one call or several, on an application
  whose stack is empty and that has no skip rules: the chain built around a handler is
  \<open>M1 (M2 (\<dots> (Mn handler)))\<close>, the first registered outermost. When every \<open>Mi\<close> leaves a
  mark before and a mark after the handler it wraps, and the handler returns nil, the marks
  come in the order M1-pre, \<dots>, Mn-pre, then what the handler does, then Mn-post, \<dots>,
  M1-post.
\<close>

theorem middleware_order:
  assumes "middleware app = \<lparr>stack = [], skips = []\<rparr>"
  shows "handle (middleware (foldl (\<lambda>a g. Use g a) app gs)) h = foldr wrap (concat gs) h
       \<and> (call h ctx (w @ map (\<lambda>(name, pre, post). Effect pre) (concat pss)) = (Returns None, w1) \<longrightarrow>
            call (handle (middleware (foldl (\<lambda>a g. Use g a) app (map (map probe) pss))) h) ctx w
              = (Returns None, w1 @ rev (map (\<lambda>(name, pre, post). Effect post) (concat pss))))"
proof -
  have a: "\<And>gs. handle (middleware (foldl (\<lambda>a g. Use g a) app gs)) h = foldr wrap (concat gs) h"
    using assms by (simp add: Use_groups_middleware handle_no_skips)
  have b: "concat (map (map probe) pss) = map probe (concat pss)"
    by (simp add: map_concat)
  show ?thesis
    by (simp add: a b probes_order)
qed

theorem middleware_order_witness:
  "call (handle (middleware
           (foldl (\<lambda>a g. Use g a) (sample_app ''production'')
              [[probe (''M1'', ''M1-pre'', ''M1-post''), probe (''M2'', ''M2-pre'', ''M2-post'')],
               [probe (''M3'', ''M3-pre'', ''M3-post'')]]))
         (say ''handler'')) NewDefaultContext []
     = (Returns None,
        [Effect ''M1-pre'', Effect ''M2-pre'', Effect ''M3-pre'', Effect ''handler'',
         Effect ''M3-post'', Effect ''M2-post'', Effect ''M1-post''])"
proof -
  have h: "call (say ''handler'') NewDefaultContext
             ([] @ map (\<lambda>(name, pre, post). Effect pre)
                     (concat [[(''M1'', ''M1-pre'', ''M1-post''), (''M2'', ''M2-pre'', ''M2-post'')],
                              [(''M3'', ''M3-pre'', ''M3-post'')]]))
           = (Returns None, [Effect ''M1-pre'', Effect ''M2-pre'', Effect ''M3-pre'', Effect ''handler''])"
    by (simp add: say_def)
  from middleware_order [OF sample_middleware, of "''production''" _ "say ''handler''" NewDefaultContext "[]"
         "[[(''M1'', ''M1-pre'', ''M1-post''), (''M2'', ''M2-pre'', ''M2-post'')],
           [(''M3'', ''M3-pre'', ''M3-post'')]]"
         "[Effect ''M1-pre'', Effect ''M2-pre'', Effect ''M3-pre'', Effect ''handler'']"] h
  show ?thesis by simp
qed




section \<open>Resources\<close>

text \<open>
  Claim C7, as the code has it. \<^verbatim>\<open>Resource\<close> appends exactly five routes and changes
  nothing else: GET \<open>p\<close> to List, GET \<open>q\<close> to Show, POST \<open>p\<close> to Create, PUT \<open>q\<close> to Update and
  DELETE \<open>q\<close> to Destroy, where \<open>q\<close> is \<^verbatim>\<open>path.Join(p, "/{id}")\<close>, a cleaned path. Two
  registrations give the five routes of the first followed by the five of the second.
  When \<open>p\<close> is a rooted path of plain elements, such as \<^verbatim>\<open>/widgets\<close>, \<open>q\<close> is \<open>p\<close> followed by
  \<^verbatim>\<open>/{id}\<close>.
\<close>

theorem Resource_routes:
  "Resource path resource app =
     app\<lparr>muxRouter := muxRouter app @
       [HandleFuncRoute path [''GET''] (List resource),
        HandleFuncRoute (Join [path, ''/{id}'']) [''GET''] (Show resource),
        HandleFuncRoute path [''POST''] (Create resource),
        HandleFuncRoute (Join [path, ''/{id}'']) [''PUT''] (Update resource),
        HandleFuncRoute (Join [path, ''/{id}'']) [''DELETE''] (Destroy resource)]\<rparr>
   \<and> muxRouter (Resource path2 resource2 (Resource path resource app)) =
       muxRouter app @
       [HandleFuncRoute path [''GET''] (List resource),
        HandleFuncRoute (Join [path, ''/{id}'']) [''GET''] (Show resource),
        HandleFuncRoute path [''POST''] (Create resource),
        HandleFuncRoute (Join [path, ''/{id}'']) [''PUT''] (Update resource),
        HandleFuncRoute (Join [path, ''/{id}'']) [''DELETE''] (Destroy resource)] @
       [HandleFuncRoute path2 [''GET''] (List resource2),
        HandleFuncRoute (Join [path2, ''/{id}'']) [''GET''] (Show resource2),
        HandleFuncRoute path2 [''POST''] (Create resource2),
        HandleFuncRoute (Join [path2, ''/{id}'']) [''PUT''] (Update resource2),
        HandleFuncRoute (Join [path2, ''/{id}'']) [''DELETE''] (Destroy resource2)]
   \<and> (segs \<noteq> [] \<and> list_all plain_segment segs \<longrightarrow>
        Join [concat (map (\<lambda>s. CHR ''/'' # s) segs), ''/{id}'']
          = concat (map (\<lambda>s. CHR ''/'' # s) segs) @ ''/{id}'')"
  by (simp add: Resource_def Get_def Post_def Put_def Delete_def HandleMethod_def Let_def
      Join_id_plain)

theorem Resource_routes_witness:
  "muxRouter (Resource ''/widgets'' sample_resource (sample_app ''production'')) =
     [PathPrefixRoute ''/public/'' ''./public/'',
      HandleFuncRoute ''/widgets'' [''GET''] (say ''List''),
      HandleFuncRoute ''/widgets/{id}'' [''GET''] (say ''Show''),
      HandleFuncRoute ''/widgets'' [''POST''] (say ''Create''),
      HandleFuncRoute ''/widgets/{id}'' [''PUT''] (say ''Update''),
      HandleFuncRoute ''/widgets/{id}'' [''DELETE''] (say ''Destroy'')]"
proof -
  have p: "[''widgets''] \<noteq> [] \<and> list_all plain_segment [''widgets'']"
    by (simp add: plain_segment_def)
  from Resource_routes [of "''/widgets''" sample_resource "sample_app ''production''" _ _ "[''widgets'']"] p
  show ?thesis by (simp add: sample_resource_def sample_app_def)
qed

text \<open>
  Claim C7, as stated, fails where \<open>p\<close> is not such a path: for \<^verbatim>\<open>/widgets/\<close> and for
  \<^verbatim>\<open>/v1/../widgets\<close> the member routes are registered under \<^verbatim>\<open>/widgets/{id}\<close>, and no route
  is registered under \<open>p\<close> followed by \<^verbatim>\<open>/{id}\<close> (\<^verbatim>\<open>/widgets//{id}\<close>, \<^verbatim>\<open>/v1/../widgets/{id}\<close>).
\<close>

theorem Resource_trailing_slash:
  "HandleFuncRoute (''/widgets/'' @ ''/{id}'') [''GET''] (Show sample_resource)
     \<notin> set (muxRouter (Resource ''/widgets/'' sample_resource (sample_app ''production'')))
   \<and> HandleFuncRoute ''/widgets/{id}'' [''GET''] (Show sample_resource)
     \<in> set (muxRouter (Resource ''/widgets/'' sample_resource (sample_app ''production'')))
   \<and> HandleFuncRoute (''/v1/../widgets'' @ ''/{id}'') [''GET''] (Show sample_resource)
     \<notin> set (muxRouter (Resource ''/v1/../widgets'' sample_resource (sample_app ''production'')))
   \<and> HandleFuncRoute ''/widgets/{id}'' [''GET''] (Show sample_resource)
     \<in> set (muxRouter (Resource ''/v1/../widgets'' sample_resource (sample_app ''production'')))"
  by (simp add: Resource_def Get_def Post_def Put_def Delete_def HandleMethod_def Let_def
      Join_widgets Join_dotdot sample_app_def)

section \<open>Initialisation\<close>

text \<open>
  Claim C8, as the code has it. \<^verbatim>\<open>Init\<close> first registers the routes of every sub-router, in
  order, and then calls \<^verbatim>\<open>Init()\<close> of the template engine, once. When that returns an error,
  \<^verbatim>\<open>Init\<close> panics with it, the routes being registered already; it never ends the process.
  \<^verbatim>\<open>Start\<close> does not recover the panic and launches nothing. A caller that recovers the panic
  goes on with the application as \<^verbatim>\<open>Init\<close> left it, and that application dispatches a
  request as the application before \<^verbatim>\<open>Init\<close> does, the engine apart. With no error, neither
  \<^verbatim>\<open>Init\<close> nor \<^verbatim>\<open>Start\<close> panics.
\<close>

theorem Init_template_failure:
  "snd (Init app) =
     app\<lparr>muxRouter := muxRouter app @
            concat (map (\<lambda>router. map (\<lambda>(methods, path, routeHandler). HandleFuncRoute path methods routeHandler)
                                  (routerRoutes router)) (routers app)),
         app_tmplEngine := (app_tmplEngine app)\<lparr>initCalls := initCalls (app_tmplEngine app) + 1\<rparr>\<rparr>
   \<and> (initError (app_tmplEngine app) = Some e \<longrightarrow>
        fst (Init app) = Some (Panic (AnError e))
        \<and> Start app = (Some (Panic (AnError e)), snd (Init app), [])
        \<and> recovering_caller app = (None, snd (Init app)))
   \<and> (initError (app_tmplEngine app) = None \<longrightarrow> fst (Init app) = None \<and> fst (Start app) = None)
   \<and> fst (Init app) \<noteq> Some (Exit n l)
   \<and> dispatch (snd (Init app)) routeHandler res req w
       = dispatch (app\<lparr>app_tmplEngine :=
                        (app_tmplEngine app)\<lparr>initCalls := initCalls (app_tmplEngine app) + 1\<rparr>\<rparr>)
           routeHandler res req w"
proof -
  have fail: "fst (Init app) = Some (Panic (AnError e))
        \<and> Start app = (Some (Panic (AnError e)), snd (Init app), [])
        \<and> recovering_caller app = (None, snd (Init app))"
    if "initError (app_tmplEngine app) = Some e"
  proof -
    have f: "fst (Init app) = Some (Panic (AnError e))"
      using that by (simp add: Init_abort)
    then have i: "Init app = (Some (Panic (AnError e)), snd (Init app))"
      by (simp add: prod_eq_iff)
    have s: "Start app = (Some (Panic (AnError e)), snd (Init app), [])"
      by (subst Start_def, subst i) simp
    show ?thesis using f s by (simp add: recovering_caller_def)
  qed
  have ok: "fst (Init app) = None \<and> fst (Start app) = None"
    if "initError (app_tmplEngine app) = None"
  proof -
    have f: "fst (Init app) = None"
      using that by (simp add: Init_abort)
    then have i: "Init app = (None, snd (Init app))"
      by (simp add: prod_eq_iff)
    have "fst (Start app) = None"
      by (subst Start_def, subst i) (simp add: Let_def)
    with f show ?thesis by simp
  qed
  have noexit: "fst (Init app) \<noteq> Some (Exit n l)"
    by (simp add: Init_abort split: option.splits)
  have serves: "dispatch (snd (Init app)) routeHandler res req w
       = dispatch (app\<lparr>app_tmplEngine :=
                        (app_tmplEngine app)\<lparr>initCalls := initCalls (app_tmplEngine app) + 1\<rparr>\<rparr>)
           routeHandler res req w"
    by (rule dispatch_frame) (simp_all add: Init_result)
  from Init_result [of app] fail ok noexit serves show ?thesis by simp
qed

theorem Init_template_failure_witness:
  "Init broken_app
     = (Some (Panic (AnError (errorString ''templates: no such directory''))),
        (sample_app ''production'')
          \<lparr>muxRouter := [PathPrefixRoute ''/public/'' ''./public/'',
                         HandleFuncRoute ''/sub'' [''GET''] (say ''sub'')],
           app_tmplEngine := broken_engine\<lparr>initCalls := 1\<rparr>,
           routers := [sample_router]\<rparr>)
   \<and> Start broken_app = (Some (Panic (AnError (errorString ''templates: no such directory''))),
                         snd (Init broken_app), [])"
proof -
  have e: "initError (app_tmplEngine broken_app) = Some (errorString ''templates: no such directory'')"
    by (simp add: broken_app_def broken_engine_def)
  from Init_template_failure [of broken_app "errorString ''templates: no such directory''"] e
  have "snd (Init broken_app)
          = (sample_app ''production'')
          \<lparr>muxRouter := [PathPrefixRoute ''/public/'' ''./public/'',
                         HandleFuncRoute ''/sub'' [''GET''] (say ''sub'')],
           app_tmplEngine := broken_engine\<lparr>initCalls := 1\<rparr>,
           routers := [sample_router]\<rparr>
        \<and> fst (Init broken_app) = Some (Panic (AnError (errorString ''templates: no such directory'')))
        \<and> Start broken_app = (Some (Panic (AnError (errorString ''templates: no such directory''))),
                         snd (Init broken_app), [])"
    by (simp add: broken_app_def sample_app_def sample_router_def broken_engine_def)
  then show ?thesis by (simp add: prod_eq_iff)
qed

text \<open>
  Claim C8, as stated, fails. The failure of the template engine is a panic, which a caller
  can recover, and nothing in the application keeps it from serving afterwards: after the
  failed \<^verbatim>\<open>Init\<close> the route of the sub-router is registered, and a request to it is dispatched
  to its handler.
\<close>

theorem failed_Init_still_serves:
  "fst (Init broken_app) = Some (Panic (AnError (errorString ''templates: no such directory'')))
   \<and> recovering_caller broken_app = (None, snd (Init broken_app))
   \<and> HandleFuncRoute ''/sub'' [''GET''] (say ''sub'') \<in> set (muxRouter (snd (Init broken_app)))
   \<and> dispatch (snd (Init broken_app)) (say ''sub'') 0 sample_request [] = (None, [Effect ''sub''])"
proof -
  have a: "fst (Init broken_app) = Some (Panic (AnError (errorString ''templates: no such directory'')))"
    by (simp add: Init_abort broken_app_def broken_engine_def)
  have i: "Init broken_app = (Some (Panic (AnError (errorString ''templates: no such directory''))),
                              snd (Init broken_app))"
    using a by (simp add: prod_eq_iff)
  have s: "Start broken_app = (Some (Panic (AnError (errorString ''templates: no such directory''))),
                               snd (Init broken_app), [])"
    by (subst Start_def, subst i) simp
  have r: "recovering_caller broken_app = (None, snd (Init broken_app))"
    by (simp add: recovering_caller_def s)
  have m: "HandleFuncRoute ''/sub'' [''GET''] (say ''sub'') \<in> set (muxRouter (snd (Init broken_app)))"
    by (simp add: Init_result broken_app_def sample_router_def)
  have o: "opts (snd (Init broken_app)) = opts (sample_app ''production'')"
    by (simp add: Init_frame broken_app_def)
  have st: "sessionStore (opts (snd (Init broken_app))) = Some (NewCookieStore sample_codec ''k'')"
    by (simp only: o sample_store)
  from requestContext_Inr [OF st]
  obtain ctx where c: "requestContext (snd (Init broken_app)) 0 sample_request = Inr ctx" by blast
  have mw: "middleware (snd (Init broken_app)) = \<lparr>stack = [], skips = []\<rparr>"
    by (simp add: Init_frame broken_app_def sample_middleware)
  have h: "call (handle (middleware (snd (Init broken_app))) (say ''sub'')) ctx []
           = (Returns None, [Effect ''sub''])"
    unfolding mw by (simp add: handle_def say_def)
  have d: "dispatch (snd (Init broken_app)) (say ''sub'') 0 sample_request [] = (None, [Effect ''sub''])"
    using dispatch_outcome [OF c h] by simp
  from a r m d show ?thesis by simp
qed


end
